theory Spec2Isabelle
  imports Main
begin

section \<open>Data model of server.js\<close>

text \<open>
  The server keeps two JSON documents on disk: \<^verbatim>\<open>products.json\<close>, an array of
  products, and \<^verbatim>\<open>payments.json\<close>, an object keyed by the gateway's order id. Numbers
  are JavaScript numbers; every number the handlers compute is an integer far below
  \<^verbatim>\<open>2^53\<close>, where double arithmetic is exact, so they are modelled as \<open>int\<close>.
\<close>

record product =
  prod_id :: string
  title :: string
  description :: string
  priceINR :: int
  filename :: string
  thumbnail :: string

text \<open>The two values the handlers write to \<^verbatim>\<open>status\<close>: \<^verbatim>\<open>'created'\<close> and \<^verbatim>\<open>'paid'\<close>.\<close>

datatype status = Created | Paid

text \<open>
  A number as it comes back from \<^verbatim>\<open>payments.json\<close>: \<^verbatim>\<open>JSON.stringify\<close> writes
  \<^verbatim>\<open>NaN\<close> as \<^verbatim>\<open>null\<close>.
\<close>

datatype json_num = JNull | JNum int

text \<open>
  A payment record. The last four fields are absent (\<open>None\<close>, JavaScript's
  \<^verbatim>\<open>undefined\<close>) until \<^verbatim>\<open>/api/verify-payment\<close> sets them; \<^verbatim>\<open>buyerName\<close> and
  \<^verbatim>\<open>buyerEmail\<close> are \<^verbatim>\<open>null\<close> (\<open>None\<close>) or a non-empty string.
\<close>

record payment =
  status :: status
  orderId :: string
  productId :: string
  productTitle :: string
  amountINR :: int
  buyerName :: "string option"
  buyerEmail :: "string option"
  createdAt :: int
  razorpay_payment_id :: "string option"
  razorpay_signature :: "string option"
  downloadToken :: "string option"
  downloadExpiresAt :: "json_num option"

text \<open>
  The payments object, as the list of its own properties in the order
  \<^verbatim>\<open>Object.values\<close> enumerates them: insertion order, for keys that are not array
  indices. The keys are the ids the gateway gives its orders, of the form
  \<^verbatim>\<open>order_...\<close>: none is an array index, and none is \<^verbatim>\<open>__proto__\<close>, the one key under
  which an assignment stores no property.
\<close>

type_synonym ledger = "(string \<times> payment) list"

text \<open>The record the object holds under a key as its own property, if any.\<close>

definition obj_get :: "ledger \<Rightarrow> string \<Rightarrow> payment option" where
  "obj_get payments k = map_of payments k"

text \<open>
  Reading \<^verbatim>\<open>payments[k]\<close> goes up the prototype chain: the object comes from
  \<^verbatim>\<open>JSON.parse\<close>, so where it has no own property \<open>k\<close> it still answers for the names
  of \<^verbatim>\<open>Object.prototype\<close>, with a built-in function or, for \<^verbatim>\<open>__proto__\<close>, with
  \<^verbatim>\<open>Object.prototype\<close> itself. Every such value is truthy and none is a record.
\<close>

definition object_prototype_names :: "string list" where
  "object_prototype_names =
     [''constructor'', ''__defineGetter__'', ''__defineSetter__'', ''hasOwnProperty'',
      ''__lookupGetter__'', ''__lookupSetter__'', ''isPrototypeOf'', ''propertyIsEnumerable'',
      ''toString'', ''valueOf'', ''__proto__'', ''toLocaleString'']"

datatype property = Own_record payment | Inherited_builtin | Undefined

definition obj_lookup :: "ledger \<Rightarrow> string \<Rightarrow> property" where
  "obj_lookup payments k =
     (case obj_get payments k of
        Some p \<Rightarrow> Own_record p
      | None \<Rightarrow> if k \<in> set object_prototype_names then Inherited_builtin else Undefined)"

text \<open>\<^verbatim>\<open>payments[k] = v\<close>: an existing key keeps its place, a new key goes last.\<close>

fun obj_set :: "ledger \<Rightarrow> string \<Rightarrow> payment \<Rightarrow> ledger" where
  "obj_set [] k v = [(k, v)]"
| "obj_set ((k', v') # kvs) k v =
     (if k' = k then (k, v) # kvs else (k', v') # obj_set kvs k v)"

definition obj_values :: "ledger \<Rightarrow> payment list" where
  "obj_values payments = map snd payments"

text \<open>The request the server sends to \<^verbatim>\<open>razorpay.orders.create\<close>, and the order it gets back.\<close>

record order_options =
  amount :: int
  currency :: string
  receipt :: string
  payment_capture :: int

record gw_order =
  order_id :: string
  order_amount :: int
  order_currency :: string
  order_receipt :: string

datatype gw_error = Gateway_rejected string

text \<open>
  What the handlers read and write: the two files, and the requests sent to the gateway
  so far (outbound calls are an effect of \<^verbatim>\<open>/api/create-order\<close>).
\<close>

record world =
  products_file :: "product list"
  payments_file :: ledger
  gateway_calls :: "order_options list"

definition readProducts :: "world \<Rightarrow> product list" where
  "readProducts w = products_file w"

definition readPayments :: "world \<Rightarrow> ledger" where
  "readPayments w = payments_file w"

definition writePayments :: "ledger \<Rightarrow> world \<Rightarrow> world" where
  "writePayments obj w = w\<lparr>payments_file := obj\<rparr>"

subsection \<open>Seeding\<close>

definition sampleProducts :: "product list" where
  "sampleProducts =
     [\<lparr>prod_id = ''prod-ebook-1'',
       title = ''Mastering Productivity (eBook)'',
       description = ''100 pages of productivity hacks and templates.'',
       priceINR = 199,
       filename = ''mastering-productivity.pdf'',
       thumbnail = ''/assets/ebook-thumb.png''\<rparr>,
      \<lparr>prod_id = ''prod-templates-1'',
       title = ''UI Kit & Templates'',
       description = ''Collection of 20 modern UI templates (Figma).'',
       priceINR = 499,
       filename = ''ui-kit-templates.zip'',
       thumbnail = ''/assets/templates-thumb.png''\<rparr>]"

text \<open>
  Start-up: each file is created only when it does not exist (\<open>None\<close>); an existing
  file is left as it is.
\<close>

definition ensure_data_files :: "product list option \<Rightarrow> ledger option \<Rightarrow> world" where
  "ensure_data_files products_on_disk payments_on_disk =
     \<lparr>products_file = (case products_on_disk of None \<Rightarrow> sampleProducts | Some ps \<Rightarrow> ps),
      payments_file = (case payments_on_disk of None \<Rightarrow> [] | Some l \<Rightarrow> l),
      gateway_calls = []\<rparr>"

subsection \<open>Configuration\<close>

text \<open>\<^verbatim>\<open>x || d\<close> on an environment variable: unset and the empty string are falsy.\<close>

fun falsy :: "string option \<Rightarrow> bool" where
  "falsy None = True"
| "falsy (Some s) = (s = [])"

definition or_default :: "string option \<Rightarrow> string \<Rightarrow> string" where
  "or_default x d = (case x of None \<Rightarrow> d | Some s \<Rightarrow> if s = [] then d else s)"

text \<open>\<^verbatim>\<open>x || null\<close> on a request field.\<close>

definition or_null :: "string option \<Rightarrow> string option" where
  "or_null x = (if falsy x then None else x)"

text \<open>
  \<^verbatim>\<open>parseInt(s, 10)\<close>: leading white space is skipped, one sign is read, then the
  longest run of decimal digits; no digit at all gives \<^verbatim>\<open>NaN\<close> (\<open>None\<close>). White space
  is the ASCII part of ECMAScript's \<^verbatim>\<open>StrWhiteSpaceChar\<close>.
\<close>

definition isStrWhiteSpaceChar :: "char \<Rightarrow> bool" where
  "isStrWhiteSpaceChar c = ((of_char c :: nat) \<in> {9, 10, 11, 12, 13, 32})"

definition isDigit :: "char \<Rightarrow> bool" where
  "isDigit c = (48 \<le> (of_char c :: nat) \<and> (of_char c :: nat) \<le> 57)"

definition digitValue :: "char \<Rightarrow> int" where
  "digitValue c = int (of_char c) - 48"

definition parseInt10 :: "string \<Rightarrow> int option" where
  "parseInt10 inputString =
     (let S = dropWhile isStrWhiteSpaceChar inputString;
          sign = (case S of c # _ \<Rightarrow> if c = CHR ''-'' then - 1 else 1 | [] \<Rightarrow> (1::int));
          S' = (case S of c # cs \<Rightarrow> if c = CHR ''+'' \<or> c = CHR ''-'' then cs else S | [] \<Rightarrow> S);
          Z = takeWhile isDigit S'
      in if Z = [] then None
         else Some (sign * foldl (\<lambda>a c. 10 * a + digitValue c) 0 Z))"

text \<open>Number to string, as a template literal renders an integer.\<close>

definition digitChar :: "nat \<Rightarrow> char" where
  "digitChar d = ''0123456789'' ! d"

fun show_nat :: "nat \<Rightarrow> string" where
  "show_nat n =
     (if n < 10 then [digitChar n]
      else show_nat (n div 10) @ [digitChar (n mod 10)])"

declare show_nat.simps [simp del]

definition show_int :: "int \<Rightarrow> string" where
  "show_int i = (if i < 0 then CHR ''-'' # show_nat (nat (- i)) else show_nat (nat i))"

record process_env =
  env_PORT :: "string option"
  env_RAZORPAY_KEY_ID :: "string option"
  env_RAZORPAY_KEY_SECRET :: "string option"
  env_BASE_URL :: "string option"
  env_DOWNLOAD_TOKEN_TTL_MIN :: "string option"

record config =
  PORT :: string
  RAZORPAY_KEY_ID :: string
  RAZORPAY_KEY_SECRET :: string
  BASE_URL :: string
  DOWNLOAD_TOKEN_TTL_MIN :: "int option"

definition load_config :: "process_env \<Rightarrow> config" where
  "load_config env =
     (let port = or_default (env_PORT env) ''3000'' in
      \<lparr>PORT = port,
       RAZORPAY_KEY_ID = or_default (env_RAZORPAY_KEY_ID env) [],
       RAZORPAY_KEY_SECRET = or_default (env_RAZORPAY_KEY_SECRET env) [],
       BASE_URL = or_default (env_BASE_URL env) (''http://localhost:'' @ port),
       DOWNLOAD_TOKEN_TTL_MIN =
         parseInt10 (or_default (env_DOWNLOAD_TOKEN_TTL_MIN env) ''60'')\<rparr>)"

section \<open>The handlers\<close>

text \<open>What a handler answers.\<close>

datatype response =
    Json_error nat string
  | Json_order gw_order
  | Json_verified string string string
  | Send_text nat string
  | Send_file string
  | Uncaught_TypeError

text \<open>
  \<^item> \<open>Json_error n msg\<close> is \<^verbatim>\<open>res.status(n).json({ error: msg })\<close>;
  \<^item> \<open>Json_order order\<close> is \<^verbatim>\<open>res.json({ order })\<close>;
  \<^item> \<open>Json_verified downloadUrl id title\<close> is the success answer of
    \<^verbatim>\<open>/api/verify-payment\<close>;
  \<^item> \<open>Send_text n text\<close> is \<^verbatim>\<open>res.status(n).send(text)\<close>;
  \<^item> \<open>Send_file name\<close> is \<^verbatim>\<open>res.download(filePath, name)\<close>;
  \<^item> \<open>Uncaught_TypeError\<close> is a \<^verbatim>\<open>TypeError\<close> thrown out of the handler: no answer
    of the handler's own is sent.
\<close>

subsection \<open>POST /api/create-order\<close>

record create_order_body =
  req_productId :: "string option"
  req_buyerName :: "string option"
  req_buyerEmail :: "string option"

text \<open>
  \<open>orders_create\<close> is the gateway's answer to a request (\<open>Inl\<close>: the awaited call
  rejects). \<open>now_receipt\<close> and \<open>now_created\<close> are the two readings of \<^verbatim>\<open>Date.now()\<close>,
  one before and one after the call.
\<close>

definition order_request :: "product \<Rightarrow> int \<Rightarrow> order_options" where
  "order_request product now =
     (let amountPaise = priceINR product * 100 in
      \<lparr>amount = amountPaise,
       currency = ''INR'',
       receipt = ''rcpt_'' @ prod_id product @ ''_'' @ show_int now,
       payment_capture = 1\<rparr>)"

definition create_order ::
  "(order_options \<Rightarrow> gw_error + gw_order) \<Rightarrow> int \<Rightarrow> int \<Rightarrow> create_order_body \<Rightarrow> world
     \<Rightarrow> response \<times> world" where
  "create_order orders_create now_receipt now_created body w =
     (case req_productId body of
        None \<Rightarrow> (Json_error 400 ''Missing productId'', w)
      | Some pid \<Rightarrow>
          if pid = [] then (Json_error 400 ''Missing productId'', w)
          else
            (case find (\<lambda>p. prod_id p = pid) (readProducts w) of
               None \<Rightarrow> (Json_error 404 ''Product not found'', w)
             | Some product \<Rightarrow>
                 let options = order_request product now_receipt;
                     w1 = w\<lparr>gateway_calls := gateway_calls w @ [options]\<rparr>
                 in (case orders_create options of
                       Inl err \<Rightarrow> (Json_error 500 ''Failed to create order'', w1)
                     | Inr order \<Rightarrow>
                         let payments = readPayments w1;
                             payments' = obj_set payments (order_id order)
                               \<lparr>status = Created,
                                orderId = order_id order,
                                productId = prod_id product,
                                productTitle = title product,
                                amountINR = priceINR product,
                                buyerName = or_null (req_buyerName body),
                                buyerEmail = or_null (req_buyerEmail body),
                                createdAt = now_created,
                                razorpay_payment_id = None,
                                razorpay_signature = None,
                                downloadToken = None,
                                downloadExpiresAt = None\<rparr>
                         in (Json_order order, writePayments payments' w1))))"

subsection \<open>POST /api/verify-payment\<close>

record verify_body =
  req_order_id :: "string option"
  req_payment_id :: "string option"
  req_signature :: "string option"

text \<open>
  \<open>hmac_sha256_hex key msg\<close> stands for
  \<^verbatim>\<open>crypto.createHmac('sha256', key).update(msg).digest('hex')\<close>, \<open>token\<close> for the
  value of \<^verbatim>\<open>nanoid(32)\<close> and \<open>now\<close> for \<^verbatim>\<open>Date.now()\<close>. A \<^verbatim>\<open>NaN\<close> expiry is
  written to the file as \<^verbatim>\<open>null\<close>.

  When the order id is a name inherited from \<^verbatim>\<open>Object.prototype\<close> and not a key of the
  file, \<^verbatim>\<open>local\<close> is a built-in object and passes the \<^verbatim>\<open>!local\<close> guard. The five
  assignments then land on that built-in object, in the memory of the process, which is
  no part of the world modelled here. \<^verbatim>\<open>payments[id] = local\<close> adds a property whose
  value is a function, which \<^verbatim>\<open>JSON.stringify\<close> leaves out (for \<^verbatim>\<open>__proto__\<close> it sets
  the prototype to what it already is), so the file is written back with the content it
  had. \<^verbatim>\<open>local.productId\<close> is \<^verbatim>\<open>undefined\<close>, no product has that id, and
  \<^verbatim>\<open>product.id\<close> throws.
\<close>

definition expiry :: "config \<Rightarrow> int \<Rightarrow> json_num" where
  "expiry cfg now =
     (case DOWNLOAD_TOKEN_TTL_MIN cfg of
        None \<Rightarrow> JNull
      | Some ttl \<Rightarrow> JNum (now + ttl * 60 * 1000))"

definition verify_payment ::
  "(string \<Rightarrow> string \<Rightarrow> string) \<Rightarrow> config \<Rightarrow> string \<Rightarrow> int \<Rightarrow> verify_body \<Rightarrow> world
     \<Rightarrow> response \<times> world" where
  "verify_payment hmac_sha256_hex cfg token now body w =
     (case (req_order_id body, req_payment_id body, req_signature body) of
        (Some oid, Some payid, Some sig) \<Rightarrow>
          if oid = [] \<or> payid = [] \<or> sig = []
          then (Json_error 400 ''Missing parameters'', w)
          else
            let generated_signature =
                  hmac_sha256_hex (RAZORPAY_KEY_SECRET cfg) (oid @ ''|'' @ payid)
            in if generated_signature \<noteq> sig
               then (Json_error 400 ''Invalid signature'', w)
               else
                 let payments = readPayments w in
                 (case obj_lookup payments oid of
                    Undefined \<Rightarrow> (Json_error 404 ''Order not found on server'', w)
                  | Inherited_builtin \<Rightarrow> (Uncaught_TypeError, writePayments payments w)
                  | Own_record local \<Rightarrow>
                      let expiresAt = expiry cfg now;
                          local' = local\<lparr>status := Paid,
                                         razorpay_payment_id := Some payid,
                                         razorpay_signature := Some sig,
                                         downloadToken := Some token,
                                         downloadExpiresAt := Some expiresAt\<rparr>;
                          w' = writePayments (obj_set payments oid local') w
                      in (case find (\<lambda>p. prod_id p = productId local') (readProducts w') of
                            None \<Rightarrow> (Uncaught_TypeError, w')
                          | Some product \<Rightarrow>
                              (Json_verified (BASE_URL cfg @ ''/download/'' @ token)
                                 (prod_id product) (title product), w')))
      | _ \<Rightarrow> (Json_error 400 ''Missing parameters'', w))"

subsection \<open>GET /download/:token\<close>

text \<open>
  \<^verbatim>\<open>orderEntry.downloadExpiresAt < Date.now()\<close>: an absent field is \<^verbatim>\<open>undefined\<close>,
  which compares false; \<^verbatim>\<open>null\<close> compares as 0.
\<close>

fun expires_before :: "json_num option \<Rightarrow> int \<Rightarrow> bool" where
  "expires_before None now = False"
| "expires_before (Some JNull) now = (0 < now)"
| "expires_before (Some (JNum e)) now = (e < now)"

text \<open>
  \<open>exists_download name\<close> stands for
  \<^verbatim>\<open>fs.existsSync(path.join(__dirname, 'downloads', name))\<close>.
\<close>

definition download ::
  "(string \<Rightarrow> bool) \<Rightarrow> int \<Rightarrow> string \<Rightarrow> world \<Rightarrow> response \<times> world" where
  "download exists_download now token w =
     (let payments = readPayments w in
      case find (\<lambda>p. downloadToken p = Some token) (obj_values payments) of
        None \<Rightarrow> (Send_text 404 ''Invalid or expired download link.'', w)
      | Some orderEntry \<Rightarrow>
          if expires_before (downloadExpiresAt orderEntry) now
          then (Send_text 410 ''Download link has expired.'', w)
          else
            (case find (\<lambda>p. prod_id p = productId orderEntry) (readProducts w) of
               None \<Rightarrow> (Send_text 404 ''Product not found'', w)
             | Some product \<Rightarrow>
                 if \<not> exists_download (filename product)
                 then (Send_text 404 ''File not found on server'', w)
                 else (Send_file (filename product), w)))"

subsection \<open>The error names of the specification\<close>

datatype error = InvalidRequest | NotFound | UpstreamError | SignatureInvalid | Expired

text \<open>
  The specification names the failures; the handlers answer with a status code and a
  message. This is the reading of one as the other: 400 is \<open>SignatureInvalid\<close> with the
  message of the signature check and \<open>InvalidRequest\<close> otherwise, 404 is \<open>NotFound\<close>,
  410 is \<open>Expired\<close>, 500 is \<open>UpstreamError\<close>.
\<close>

definition error_of :: "response \<Rightarrow> error option" where
  "error_of r =
     (case r of
        Json_error code msg \<Rightarrow>
          if code = 400
          then (if msg = ''Invalid signature'' then Some SignatureInvalid else Some InvalidRequest)
          else if code = 404 then Some NotFound
          else if code = 500 then Some UpstreamError
          else None
      | Send_text code msg \<Rightarrow>
          if code = 404 then Some NotFound
          else if code = 410 then Some Expired
          else None
      | _ \<Rightarrow> None)"

fun succeeds :: "response \<Rightarrow> bool" where
  "succeeds (Json_order _) = True"
| "succeeds (Json_verified _ _ _) = True"
| "succeeds (Send_file _) = True"
| "succeeds _ = False"

subsection \<open>Sequences of requests\<close>

text \<open>
  The three handlers as one step on the world, with what each call reads from outside
  (the gateway's answer, the clock, the fresh token) carried by the request.
\<close>

datatype request =
    Create_order "order_options \<Rightarrow> gw_error + gw_order" int int create_order_body
  | Verify_payment string int verify_body
  | Download int string

fun handle ::
  "(string \<Rightarrow> string \<Rightarrow> string) \<Rightarrow> config \<Rightarrow> (string \<Rightarrow> bool) \<Rightarrow> request \<Rightarrow> world
     \<Rightarrow> response \<times> world" where
  "handle hmac cfg ex (Create_order orders_create now_receipt now_created body) w =
     create_order orders_create now_receipt now_created body w"
| "handle hmac cfg ex (Verify_payment token now body) w =
     verify_payment hmac cfg token now body w"
| "handle hmac cfg ex (Download now token) w = download ex now token w"

fun run ::
  "(string \<Rightarrow> string \<Rightarrow> string) \<Rightarrow> config \<Rightarrow> (string \<Rightarrow> bool) \<Rightarrow> request list \<Rightarrow> world
     \<Rightarrow> world" where
  "run hmac cfg ex [] w = w"
| "run hmac cfg ex (r # rs) w = run hmac cfg ex rs (snd (handle hmac cfg ex r w))"

text \<open>
  The gateway hands out a new id for every order: no \<open>Create_order\<close> of the sequence
  is answered with an id that is a key of the ledger at that moment.
\<close>

fun fresh_order_ids ::
  "(string \<Rightarrow> string \<Rightarrow> string) \<Rightarrow> config \<Rightarrow> (string \<Rightarrow> bool) \<Rightarrow> request list \<Rightarrow> world
     \<Rightarrow> bool" where
  "fresh_order_ids hmac cfg ex [] w = True"
| "fresh_order_ids hmac cfg ex (r # rs) w =
     ((case fst (handle hmac cfg ex r w) of
         Json_order order \<Rightarrow> obj_get (payments_file w) (order_id order) = None
       | _ \<Rightarrow> True)
      \<and> fresh_order_ids hmac cfg ex rs (snd (handle hmac cfg ex r w)))"

section \<open>Sample inputs\<close>

text \<open>
  The inputs of the concrete scenarios: order \<^verbatim>\<open>order_abc\<close>, payment \<^verbatim>\<open>pay_xyz\<close>,
  secret \<^verbatim>\<open>s3cr3t\<close>. \<open>hmac_at_sample\<close> is HMAC-SHA256 in hexadecimal at that key and
  the three messages the scenarios sign, \<^verbatim>\<open>order_abc|pay_xyz\<close>, \<^verbatim>\<open>order_def|pay_xyz\<close>
  and \<^verbatim>\<open>constructor|pay_xyz\<close>; the general theorems hold for every function in its
  place.
\<close>

definition hmac_at_sample :: "string \<Rightarrow> string \<Rightarrow> string" where
  "hmac_at_sample key msg =
     (if key = ''s3cr3t'' \<and> msg = ''order_abc|pay_xyz''
      then ''ee21698235c31aef5bb049b86d1c00014db7de75dbe78cb4ed9ffa8e90855655''
      else if key = ''s3cr3t'' \<and> msg = ''order_def|pay_xyz''
      then ''fa9a36e0b06aa1c5e6fd0fa2b30eef5ccda00d3a697cab6be68d58fa4de2a2a2''
      else if key = ''s3cr3t'' \<and> msg = ''constructor|pay_xyz''
      then ''7eb955ce1e5d24ec3cbf4837f3426224edd365b74e26ebc841f0af91ff474dfc''
      else [])"

definition sample_env :: process_env where
  "sample_env =
     \<lparr>env_PORT = None,
      env_RAZORPAY_KEY_ID = Some ''rzp_test_key'',
      env_RAZORPAY_KEY_SECRET = Some ''s3cr3t'',
      env_BASE_URL = None,
      env_DOWNLOAD_TOKEN_TTL_MIN = Some ''1''\<rparr>"

definition sample_gateway :: "order_options \<Rightarrow> gw_error + gw_order" where
  "sample_gateway options =
     Inr \<lparr>order_id = ''order_abc'',
          order_amount = amount options,
          order_currency = currency options,
          order_receipt = receipt options\<rparr>"

definition failing_gateway :: "order_options \<Rightarrow> gw_error + gw_order" where
  "failing_gateway options = Inl (Gateway_rejected ''BAD_REQUEST_ERROR'')"

definition sample_create_body :: create_order_body where
  "sample_create_body =
     \<lparr>req_productId = Some ''prod-ebook-1'',
      req_buyerName = Some ''Asha'',
      req_buyerEmail = None\<rparr>"

definition sample_verify_body :: verify_body where
  "sample_verify_body =
     \<lparr>req_order_id = Some ''order_abc'',
      req_payment_id = Some ''pay_xyz'',
      req_signature = Some ''ee21698235c31aef5bb049b86d1c00014db7de75dbe78cb4ed9ffa8e90855655''\<rparr>"

definition sample_token :: string where
  "sample_token = ''V1StGXR8_Z5jdHi6B-myT0123456789a''"

definition other_token :: string where
  "other_token = ''kq3Zp0LmN8xYwTu2RbHs5EvJc7AdGf1Q''"

text \<open>The downloads directory holds the e-book and nothing else.\<close>

definition sample_downloads :: "string \<Rightarrow> bool" where
  "sample_downloads name = (name = ''mastering-productivity.pdf'')"

text \<open>The world after start-up with no file on disk, after the order, after the payment.\<close>

definition world_seeded :: world where
  "world_seeded = ensure_data_files None None"

definition world_created :: world where
  "world_created =
     snd (create_order sample_gateway 1700000000000 1700000000250 sample_create_body world_seeded)"

definition world_paid :: world where
  "world_paid =
     snd (verify_payment hmac_at_sample (load_config sample_env) sample_token 1700000100000
            sample_verify_body world_created)"

text \<open>A callback whose signature is not the digest.\<close>

definition forged_verify_body :: verify_body where
  "forged_verify_body =
     \<lparr>req_order_id = Some ''order_abc'',
      req_payment_id = Some ''pay_xyz'',
      req_signature = Some ''00ff''\<rparr>"

text \<open>The gateway's answer to a second order, and a run of three requests after the payment.\<close>

definition next_gateway :: "order_options \<Rightarrow> gw_error + gw_order" where
  "next_gateway options =
     Inr \<lparr>order_id = ''order_def'',
          order_amount = amount options,
          order_currency = currency options,
          order_receipt = receipt options\<rparr>"

definition sample_requests :: "request list" where
  "sample_requests =
     [Create_order next_gateway 1700000200000 1700000200300 sample_create_body,
      Verify_payment other_token 1700000300000 sample_verify_body,
      Download 1700000300500 other_token]"

text \<open>A callback with an empty signature, and one for the order id \<^verbatim>\<open>constructor\<close>.\<close>

definition empty_signature_body :: verify_body where
  "empty_signature_body =
     \<lparr>req_order_id = Some ''order_abc'',
      req_payment_id = Some ''pay_xyz'',
      req_signature = Some []\<rparr>"

definition constructor_verify_body :: verify_body where
  "constructor_verify_body =
     \<lparr>req_order_id = Some ''constructor'',
      req_payment_id = Some ''pay_xyz'',
      req_signature = Some ''7eb955ce1e5d24ec3cbf4837f3426224edd365b74e26ebc841f0af91ff474dfc''\<rparr>"

text \<open>
  A second order after the payment of the first, and its callback; the world in which
  that callback is given, by chance, the token the first order already carries.
\<close>

definition second_verify_body :: verify_body where
  "second_verify_body =
     \<lparr>req_order_id = Some ''order_def'',
      req_payment_id = Some ''pay_xyz'',
      req_signature = Some ''fa9a36e0b06aa1c5e6fd0fa2b30eef5ccda00d3a697cab6be68d58fa4de2a2a2''\<rparr>"

definition world_second_order :: world where
  "world_second_order =
     snd (create_order next_gateway 1700000200000 1700000200300 sample_create_body world_paid)"

definition world_token_reused :: world where
  "world_token_reused =
     snd (verify_payment hmac_at_sample (load_config sample_env) sample_token 1700000300000
            second_verify_body world_second_order)"

text \<open>A downloads directory with no file in it.\<close>

definition empty_downloads :: "string \<Rightarrow> bool" where
  "empty_downloads name = False"

text \<open>The order is placed, then the e-book is taken out of \<^verbatim>\<open>products.json\<close>.\<close>

definition world_ebook_withdrawn :: world where
  "world_ebook_withdrawn = world_created\<lparr>products_file := tl (products_file world_created)\<rparr>"

section \<open>Basic facts\<close>

lemma obj_get_obj_set:
  "obj_get (obj_set l k v) k' = (if k' = k then Some v else obj_get l k')"
  by (induction l) (auto simp: obj_get_def)

lemma find_obj_set_fresh:
  "\<forall>p \<in> set (obj_values l). \<not> P p \<Longrightarrow> P v \<Longrightarrow> find P (obj_values (obj_set l k v)) = Some v"
  by (induction l) (auto simp: obj_values_def)

lemma parseInt10_60: "parseInt10 ''60'' = Some 60"
  by (simp add: parseInt10_def isStrWhiteSpaceChar_def isDigit_def digitValue_def)

lemma parseInt10_1: "parseInt10 ''1'' = Some 1"
  by (simp add: parseInt10_def isStrWhiteSpaceChar_def isDigit_def digitValue_def)

subsection \<open>Reading back a number written in decimal\<close>

lemma digitChar_facts:
  assumes "d < 10"
  shows "isDigit (digitChar d)" and "digitValue (digitChar d) = int d"
    and "\<not> isStrWhiteSpaceChar (digitChar d)"
    and "digitChar d \<noteq> CHR ''+''" and "digitChar d \<noteq> CHR ''-''"
proof -
  from assms have "d \<in> {0, 1, 2, 3, 4, 5, 6, 7, 8, 9}" by auto
  then show "isDigit (digitChar d)" and "digitValue (digitChar d) = int d"
    and "\<not> isStrWhiteSpaceChar (digitChar d)"
    and "digitChar d \<noteq> CHR ''+''" and "digitChar d \<noteq> CHR ''-''"
    by (auto simp: digitChar_def isDigit_def digitValue_def isStrWhiteSpaceChar_def)
qed

lemma show_nat_digits: "\<forall>c \<in> set (show_nat n). isDigit c"
proof (induction n rule: show_nat.induct)
  case (1 n)
  show ?case
  proof (cases "n < 10")
    case True
    then show ?thesis by (simp add: show_nat.simps [of n] digitChar_facts)
  next
    case False
    with 1 show ?thesis by (simp add: show_nat.simps [of n] digitChar_facts)
  qed
qed

lemma show_nat_not_Nil: "show_nat n \<noteq> []"
  by (simp add: show_nat.simps [of n])

lemma show_nat_value: "foldl (\<lambda>a c. 10 * a + digitValue c) 0 (show_nat n) = int n"
proof (induction n rule: show_nat.induct)
  case (1 n)
  show ?case
  proof (cases "n < 10")
    case True
    then show ?thesis by (simp add: show_nat.simps [of n] digitChar_facts)
  next
    case False
    then have "foldl (\<lambda>a c. 10 * a + digitValue c) 0 (show_nat n) =
                 10 * int (n div 10) + int (n mod 10)"
      using 1 by (simp add: show_nat.simps [of n] digitChar_facts)
    moreover have "10 * int (n div 10) + int (n mod 10) = int n"
      by presburger
    ultimately show ?thesis by (simp only:)
  qed
qed

lemma show_nat_hd:
  "\<exists>c cs. show_nat n = c # cs \<and> isDigit c \<and> \<not> isStrWhiteSpaceChar c
      \<and> c \<noteq> CHR ''+'' \<and> c \<noteq> CHR ''-''"
proof (induction n rule: show_nat.induct)
  case (1 n)
  show ?case
  proof (cases "n < 10")
    case True
    then show ?thesis by (simp add: show_nat.simps [of n] digitChar_facts)
  next
    case False
    with 1 obtain c cs where "show_nat (n div 10) = c # cs" and "isDigit c"
      and "\<not> isStrWhiteSpaceChar c" and "c \<noteq> CHR ''+''" and "c \<noteq> CHR ''-''"
      by blast
    with False show ?thesis by (simp add: show_nat.simps [of n])
  qed
qed

lemma parseInt10_show_nat: "parseInt10 (show_nat n) = Some (int n)"
proof -
  from show_nat_hd [of n] obtain c cs where s: "show_nat n = c # cs"
    and c: "\<not> isStrWhiteSpaceChar c" "c \<noteq> CHR ''+''" "c \<noteq> CHR ''-''"
    by blast
  have t: "takeWhile isDigit (c # cs) = c # cs"
    using show_nat_digits [of n] by (simp only: s takeWhile_eq_all_conv) 
  have v: "foldl (\<lambda>a c. 10 * a + digitValue c) 0 (c # cs) = int n"
    using show_nat_value [of n] by (simp only: s)
  show ?thesis
    unfolding parseInt10_def s using c t v by (simp add: Let_def)
qed

lemma parseInt10_show_int: "parseInt10 (show_int i) = Some i"
proof (cases "i < 0")
  case False
  then show ?thesis by (simp add: show_int_def parseInt10_show_nat)
next
  case True
  from show_nat_hd [of "nat (- i)"] obtain c cs where s: "show_nat (nat (- i)) = c # cs"
    and c: "\<not> isStrWhiteSpaceChar c" "c \<noteq> CHR ''+''" "c \<noteq> CHR ''-''"
    by blast
  have t: "takeWhile isDigit (c # cs) = c # cs"
    using show_nat_digits [of "nat (- i)"] by (simp only: s takeWhile_eq_all_conv)
  have v: "foldl (\<lambda>a c. 10 * a + digitValue c) 0 (c # cs) = int (nat (- i))"
    using show_nat_value [of "nat (- i)"] by (simp only: s)
  have m: "\<not> isStrWhiteSpaceChar CHR ''-''"
    by (simp add: isStrWhiteSpaceChar_def)
  show ?thesis
    unfolding parseInt10_def show_int_def using True s c t v m by (simp add: Let_def)
qed

lemma show_int_not_Nil: "show_int i \<noteq> []"
  by (simp add: show_int_def show_nat_not_Nil)

subsection \<open>The sample worlds, evaluated\<close>

lemma load_config_sample:
  "load_config sample_env =
     \<lparr>PORT = ''3000'', RAZORPAY_KEY_ID = ''rzp_test_key'', RAZORPAY_KEY_SECRET = ''s3cr3t'',
      BASE_URL = ''http://localhost:3000'', DOWNLOAD_TOKEN_TTL_MIN = Some 1\<rparr>"
  by (simp add: load_config_def sample_env_def or_default_def parseInt10_1 Let_def)

lemma sample_order_accepted:
  "create_order sample_gateway 1700000000000 1700000000250 sample_create_body world_seeded =
     (Json_order \<lparr>order_id = ''order_abc'', order_amount = 19900, order_currency = ''INR'',
                  order_receipt = ''rcpt_prod-ebook-1_1700000000000''\<rparr>,
      \<lparr>products_file = sampleProducts,
       payments_file =
         [(''order_abc'',
           \<lparr>status = Created, orderId = ''order_abc'', productId = ''prod-ebook-1'',
            productTitle = ''Mastering Productivity (eBook)'', amountINR = 199,
            buyerName = Some ''Asha'', buyerEmail = None, createdAt = 1700000000250,
            razorpay_payment_id = None, razorpay_signature = None,
            downloadToken = None, downloadExpiresAt = None\<rparr>)],
       gateway_calls =
         [\<lparr>amount = 19900, currency = ''INR'', receipt = ''rcpt_prod-ebook-1_1700000000000'',
           payment_capture = 1\<rparr>]\<rparr>)"
  by (simp add: world_seeded_def ensure_data_files_def create_order_def
      sample_create_body_def sample_gateway_def sampleProducts_def readProducts_def
      readPayments_def writePayments_def order_request_def or_null_def
      show_int_def show_nat.simps digitChar_def)

lemma world_created_eq:
  "world_created =
     \<lparr>products_file = sampleProducts,
      payments_file =
        [(''order_abc'',
          \<lparr>status = Created, orderId = ''order_abc'', productId = ''prod-ebook-1'',
           productTitle = ''Mastering Productivity (eBook)'', amountINR = 199,
           buyerName = Some ''Asha'', buyerEmail = None, createdAt = 1700000000250,
           razorpay_payment_id = None, razorpay_signature = None,
           downloadToken = None, downloadExpiresAt = None\<rparr>)],
      gateway_calls =
        [\<lparr>amount = 19900, currency = ''INR'', receipt = ''rcpt_prod-ebook-1_1700000000000'',
          payment_capture = 1\<rparr>]\<rparr>"
  by (simp add: world_created_def sample_order_accepted)

lemma sample_payment_verified:
  "verify_payment hmac_at_sample (load_config sample_env) sample_token 1700000100000
     sample_verify_body world_created =
     (Json_verified (''http://localhost:3000/download/'' @ sample_token) ''prod-ebook-1''
        ''Mastering Productivity (eBook)'',
      \<lparr>products_file = sampleProducts,
       payments_file =
         [(''order_abc'',
           \<lparr>status = Paid, orderId = ''order_abc'', productId = ''prod-ebook-1'',
            productTitle = ''Mastering Productivity (eBook)'', amountINR = 199,
            buyerName = Some ''Asha'', buyerEmail = None, createdAt = 1700000000250,
            razorpay_payment_id = Some ''pay_xyz'',
            razorpay_signature =
              Some ''ee21698235c31aef5bb049b86d1c00014db7de75dbe78cb4ed9ffa8e90855655'',
            downloadToken = Some sample_token,
            downloadExpiresAt = Some (JNum 1700000160000)\<rparr>)],
       gateway_calls =
         [\<lparr>amount = 19900, currency = ''INR'', receipt = ''rcpt_prod-ebook-1_1700000000000'',
           payment_capture = 1\<rparr>]\<rparr>)"
  unfolding world_created_eq load_config_sample
  by (simp add: verify_payment_def sample_verify_body_def hmac_at_sample_def
      readProducts_def readPayments_def writePayments_def obj_lookup_def obj_get_def
      expiry_def sampleProducts_def)

lemma world_paid_eq:
  "world_paid =
     \<lparr>products_file = sampleProducts,
      payments_file =
        [(''order_abc'',
          \<lparr>status = Paid, orderId = ''order_abc'', productId = ''prod-ebook-1'',
           productTitle = ''Mastering Productivity (eBook)'', amountINR = 199,
           buyerName = Some ''Asha'', buyerEmail = None, createdAt = 1700000000250,
           razorpay_payment_id = Some ''pay_xyz'',
           razorpay_signature =
             Some ''ee21698235c31aef5bb049b86d1c00014db7de75dbe78cb4ed9ffa8e90855655'',
           downloadToken = Some sample_token,
           downloadExpiresAt = Some (JNum 1700000160000)\<rparr>)],
      gateway_calls =
        [\<lparr>amount = 19900, currency = ''INR'', receipt = ''rcpt_prod-ebook-1_1700000000000'',
          payment_capture = 1\<rparr>]\<rparr>"
  by (simp add: world_paid_def sample_payment_verified)

lemma world_second_order_eq:
  "world_second_order =
     \<lparr>products_file = sampleProducts,
      payments_file =
        [(''order_abc'',
          \<lparr>status = Paid, orderId = ''order_abc'', productId = ''prod-ebook-1'',
           productTitle = ''Mastering Productivity (eBook)'', amountINR = 199,
           buyerName = Some ''Asha'', buyerEmail = None, createdAt = 1700000000250,
           razorpay_payment_id = Some ''pay_xyz'',
           razorpay_signature =
             Some ''ee21698235c31aef5bb049b86d1c00014db7de75dbe78cb4ed9ffa8e90855655'',
           downloadToken = Some sample_token,
           downloadExpiresAt = Some (JNum 1700000160000)\<rparr>),
         (''order_def'',
          \<lparr>status = Created, orderId = ''order_def'', productId = ''prod-ebook-1'',
           productTitle = ''Mastering Productivity (eBook)'', amountINR = 199,
           buyerName = Some ''Asha'', buyerEmail = None, createdAt = 1700000200300,
           razorpay_payment_id = None, razorpay_signature = None,
           downloadToken = None, downloadExpiresAt = None\<rparr>)],
      gateway_calls =
        [\<lparr>amount = 19900, currency = ''INR'', receipt = ''rcpt_prod-ebook-1_1700000000000'',
          payment_capture = 1\<rparr>,
         \<lparr>amount = 19900, currency = ''INR'', receipt = ''rcpt_prod-ebook-1_1700000200000'',
          payment_capture = 1\<rparr>]\<rparr>"
  unfolding world_second_order_def world_paid_eq
  by (simp add: create_order_def sample_create_body_def next_gateway_def sampleProducts_def
      readProducts_def readPayments_def writePayments_def order_request_def or_null_def
      show_int_def show_nat.simps digitChar_def)

lemma second_payment_verified:
  "verify_payment hmac_at_sample (load_config sample_env) sample_token 1700000300000
     second_verify_body world_second_order =
     (Json_verified (''http://localhost:3000/download/'' @ sample_token) ''prod-ebook-1''
        ''Mastering Productivity (eBook)'',
      \<lparr>products_file = sampleProducts,
       payments_file =
         [(''order_abc'',
           \<lparr>status = Paid, orderId = ''order_abc'', productId = ''prod-ebook-1'',
            productTitle = ''Mastering Productivity (eBook)'', amountINR = 199,
            buyerName = Some ''Asha'', buyerEmail = None, createdAt = 1700000000250,
            razorpay_payment_id = Some ''pay_xyz'',
            razorpay_signature =
              Some ''ee21698235c31aef5bb049b86d1c00014db7de75dbe78cb4ed9ffa8e90855655'',
            downloadToken = Some sample_token,
            downloadExpiresAt = Some (JNum 1700000160000)\<rparr>),
          (''order_def'',
           \<lparr>status = Paid, orderId = ''order_def'', productId = ''prod-ebook-1'',
            productTitle = ''Mastering Productivity (eBook)'', amountINR = 199,
            buyerName = Some ''Asha'', buyerEmail = None, createdAt = 1700000200300,
            razorpay_payment_id = Some ''pay_xyz'',
            razorpay_signature =
              Some ''fa9a36e0b06aa1c5e6fd0fa2b30eef5ccda00d3a697cab6be68d58fa4de2a2a2'',
            downloadToken = Some sample_token,
            downloadExpiresAt = Some (JNum 1700000360000)\<rparr>)],
       gateway_calls =
         [\<lparr>amount = 19900, currency = ''INR'', receipt = ''rcpt_prod-ebook-1_1700000000000'',
           payment_capture = 1\<rparr>,
          \<lparr>amount = 19900, currency = ''INR'', receipt = ''rcpt_prod-ebook-1_1700000200000'',
           payment_capture = 1\<rparr>]\<rparr>)"
  unfolding world_second_order_eq load_config_sample
  by (simp add: verify_payment_def second_verify_body_def hmac_at_sample_def
      readProducts_def readPayments_def writePayments_def obj_lookup_def obj_get_def
      expiry_def sampleProducts_def)

lemma world_token_reused_eq:
  "world_token_reused =
     snd (verify_payment hmac_at_sample (load_config sample_env) sample_token 1700000300000
            second_verify_body world_second_order)"
  by (simp add: world_token_reused_def)

subsection \<open>The branches of create-order\<close>

lemma create_order_rejected:
  assumes "req_productId body = Some pid" and "pid \<noteq> []"
    and "find (\<lambda>p. prod_id p = pid) (products_file w) = Some product"
    and "orders_create (order_request product now_receipt) = Inl err"
  shows "create_order orders_create now_receipt now_created body w =
           (Json_error 500 ''Failed to create order'',
            w\<lparr>gateway_calls := gateway_calls w @ [order_request product now_receipt]\<rparr>)"
  using assms by (simp add: create_order_def readProducts_def Let_def)

lemma create_order_accepted:
  assumes "req_productId body = Some pid" and "pid \<noteq> []"
    and "find (\<lambda>p. prod_id p = pid) (products_file w) = Some product"
    and "orders_create (order_request product now_receipt) = Inr order"
  shows "create_order orders_create now_receipt now_created body w =
           (Json_order order,
            w\<lparr>gateway_calls := gateway_calls w @ [order_request product now_receipt],
              payments_file := obj_set (payments_file w) (order_id order)
                \<lparr>status = Created, orderId = order_id order, productId = prod_id product,
                 productTitle = title product, amountINR = priceINR product,
                 buyerName = or_null (req_buyerName body),
                 buyerEmail = or_null (req_buyerEmail body),
                 createdAt = now_created, razorpay_payment_id = None,
                 razorpay_signature = None, downloadToken = None,
                 downloadExpiresAt = None\<rparr>\<rparr>)"
  using assms
  by (simp add: create_order_def readProducts_def readPayments_def writePayments_def Let_def)

lemma create_order_Json_order:
  assumes "fst (create_order orders_create now_receipt now_created body w) = Json_order order"
  shows "\<exists>pid product. req_productId body = Some pid \<and> pid \<noteq> []
           \<and> find (\<lambda>p. prod_id p = pid) (products_file w) = Some product
           \<and> orders_create (order_request product now_receipt) = Inr order"
  using assms
  by (auto simp: create_order_def readProducts_def Let_def
      split: option.splits if_splits sum.splits)

subsection \<open>The branches of verify-payment\<close>

lemma verify_payment_missing:
  assumes "falsy (req_order_id body) \<or> falsy (req_payment_id body) \<or> falsy (req_signature body)"
  shows "verify_payment hmac cfg token now body w = (Json_error 400 ''Missing parameters'', w)"
  using assms
  by (cases "req_order_id body"; cases "req_payment_id body"; cases "req_signature body")
     (auto simp: verify_payment_def)

lemma verify_payment_mismatch:
  assumes "req_order_id body = Some oid" and "req_payment_id body = Some payid"
    and "req_signature body = Some sig" and "oid \<noteq> []" and "payid \<noteq> []" and "sig \<noteq> []"
    and "hmac (RAZORPAY_KEY_SECRET cfg) (oid @ ''|'' @ payid) \<noteq> sig"
  shows "verify_payment hmac cfg token now body w = (Json_error 400 ''Invalid signature'', w)"
  using assms by (simp add: verify_payment_def)

lemma verify_payment_unknown_order:
  assumes "req_order_id body = Some oid" and "req_payment_id body = Some payid"
    and "req_signature body = Some sig" and "oid \<noteq> []" and "payid \<noteq> []" and "sig \<noteq> []"
    and "hmac (RAZORPAY_KEY_SECRET cfg) (oid @ ''|'' @ payid) = sig"
    and "obj_get (payments_file w) oid = None"
    and "oid \<notin> set object_prototype_names"
  shows "verify_payment hmac cfg token now body w =
           (Json_error 404 ''Order not found on server'', w)"
  using assms by (simp add: verify_payment_def readPayments_def obj_lookup_def)

lemma verify_payment_inherited_name:
  assumes "req_order_id body = Some oid" and "req_payment_id body = Some payid"
    and "req_signature body = Some sig" and "oid \<noteq> []" and "payid \<noteq> []" and "sig \<noteq> []"
    and "hmac (RAZORPAY_KEY_SECRET cfg) (oid @ ''|'' @ payid) = sig"
    and "obj_get (payments_file w) oid = None"
    and "oid \<in> set object_prototype_names"
  shows "verify_payment hmac cfg token now body w = (Uncaught_TypeError, w)"
  using assms
  by (simp add: verify_payment_def readPayments_def writePayments_def obj_lookup_def)

lemma verify_payment_marks_paid:
  assumes "req_order_id body = Some oid" and "req_payment_id body = Some payid"
    and "req_signature body = Some sig" and "oid \<noteq> []" and "payid \<noteq> []" and "sig \<noteq> []"
    and "hmac (RAZORPAY_KEY_SECRET cfg) (oid @ ''|'' @ payid) = sig"
    and "obj_get (payments_file w) oid = Some local"
  shows "verify_payment hmac cfg token now body w =
           ((case find (\<lambda>p. prod_id p = productId local) (products_file w) of
               None \<Rightarrow> Uncaught_TypeError
             | Some product \<Rightarrow>
                 Json_verified (BASE_URL cfg @ ''/download/'' @ token) (prod_id product)
                   (title product)),
            w\<lparr>payments_file := obj_set (payments_file w) oid
                 (local\<lparr>status := Paid,
                        razorpay_payment_id := Some payid,
                        razorpay_signature := Some sig,
                        downloadToken := Some token,
                        downloadExpiresAt := Some (expiry cfg now)\<rparr>)\<rparr>)"
  using assms
  by (simp add: verify_payment_def readPayments_def readProducts_def writePayments_def
      obj_lookup_def Let_def split: option.splits)

lemma verify_payment_world:
  "snd (verify_payment hmac cfg token now body w) = w
   \<or> (\<exists>oid payid sig local.
         req_order_id body = Some oid \<and> req_payment_id body = Some payid
         \<and> req_signature body = Some sig \<and> oid \<noteq> [] \<and> payid \<noteq> [] \<and> sig \<noteq> []
         \<and> hmac (RAZORPAY_KEY_SECRET cfg) (oid @ ''|'' @ payid) = sig
         \<and> obj_get (payments_file w) oid = Some local
         \<and> snd (verify_payment hmac cfg token now body w) =
             w\<lparr>payments_file := obj_set (payments_file w) oid
                 (local\<lparr>status := Paid,
                        razorpay_payment_id := Some payid,
                        razorpay_signature := Some sig,
                        downloadToken := Some token,
                        downloadExpiresAt := Some (expiry cfg now)\<rparr>)\<rparr>)"
  by (auto simp: verify_payment_def readPayments_def readProducts_def writePayments_def
      obj_lookup_def Let_def split: option.splits)

lemma verify_payment_Json_verified:
  assumes "verify_payment hmac cfg token now body w = (Json_verified url pid ptitle, w')"
  shows "\<exists>oid payid sig local product.
           req_order_id body = Some oid \<and> req_payment_id body = Some payid
         \<and> req_signature body = Some sig
         \<and> obj_get (payments_file w) oid = Some local
         \<and> find (\<lambda>p. prod_id p = productId local) (products_file w) = Some product
         \<and> pid = prod_id product
         \<and> w' = w\<lparr>payments_file := obj_set (payments_file w) oid
                 (local\<lparr>status := Paid,
                        razorpay_payment_id := Some payid,
                        razorpay_signature := Some sig,
                        downloadToken := Some token,
                        downloadExpiresAt := Some (expiry cfg now)\<rparr>)\<rparr>"
  using assms
  by (auto simp: verify_payment_def readPayments_def readProducts_def writePayments_def
      obj_lookup_def Let_def split: option.splits if_splits)

lemma verify_payment_keeps_paid:
  assumes "obj_get (payments_file w) k = Some p" and "status p = Paid"
  shows "\<exists>p'. obj_get (payments_file (snd (verify_payment hmac cfg token now body w))) k = Some p'
           \<and> status p' = Paid"
  using verify_payment_world [of hmac cfg token now body w] assms
  by (auto simp: obj_get_obj_set)

lemma verify_payment_other_keys:
  assumes "req_order_id body \<noteq> Some k"
  shows "obj_get (payments_file (snd (verify_payment hmac cfg token now body w))) k =
         obj_get (payments_file w) k"
  using verify_payment_world [of hmac cfg token now body w] assms
  by (auto simp: obj_get_obj_set)

subsection \<open>The download handler\<close>

lemma download_world: "snd (download ex now token w) = w"
  by (simp add: download_def Let_def split: option.splits)

lemma find_prod_id:
  "find (\<lambda>p. prod_id p = i) ps = Some product \<Longrightarrow> prod_id product = i"
  by (auto simp: find_Some_iff)

lemma download_minted:
  assumes fresh: "\<forall>p \<in> set (obj_values (payments_file w)). downloadToken p \<noteq> Some token"
  shows "download ex now' token
           (w\<lparr>payments_file := obj_set (payments_file w) oid
                (local\<lparr>status := Paid,
                       razorpay_payment_id := Some payid,
                       razorpay_signature := Some sig,
                       downloadToken := Some token,
                       downloadExpiresAt := Some x\<rparr>)\<rparr>) =
         ((if expires_before (Some x) now' then Send_text 410 ''Download link has expired.''
           else case find (\<lambda>p. prod_id p = productId local) (products_file w) of
                  None \<Rightarrow> Send_text 404 ''Product not found''
                | Some product \<Rightarrow>
                    if \<not> ex (filename product) then Send_text 404 ''File not found on server''
                    else Send_file (filename product)),
          w\<lparr>payments_file := obj_set (payments_file w) oid
                (local\<lparr>status := Paid,
                       razorpay_payment_id := Some payid,
                       razorpay_signature := Some sig,
                       downloadToken := Some token,
                       downloadExpiresAt := Some x\<rparr>)\<rparr>)"
proof -
  let ?l = "local\<lparr>status := Paid, razorpay_payment_id := Some payid,
                   razorpay_signature := Some sig, downloadToken := Some token,
                   downloadExpiresAt := Some x\<rparr>"
  have "find (\<lambda>p. downloadToken p = Some token)
          (obj_values (obj_set (payments_file w) oid ?l)) = Some ?l"
    using fresh by (intro find_obj_set_fresh) auto
  then show ?thesis
    by (simp add: download_def readPayments_def readProducts_def split: option.splits)
qed

subsection \<open>Paid records along a run\<close>

lemma create_order_keeps_paid:
  assumes "obj_get (payments_file w) k = Some p"
    and "case fst (create_order orders_create n1 n2 body w) of
           Json_order order \<Rightarrow> obj_get (payments_file w) (order_id order) = None
         | _ \<Rightarrow> True"
  shows "obj_get (payments_file (snd (create_order orders_create n1 n2 body w))) k = Some p"
  using assms
  by (auto simp: create_order_def readProducts_def readPayments_def writePayments_def Let_def
      obj_get_obj_set split: option.splits if_splits sum.splits)

lemma handle_keeps_paid:
  assumes "obj_get (payments_file w) k = Some p" and "status p = Paid"
    and "case fst (handle hmac cfg ex r w) of
           Json_order order \<Rightarrow> obj_get (payments_file w) (order_id order) = None
         | _ \<Rightarrow> True"
  shows "\<exists>p'. obj_get (payments_file (snd (handle hmac cfg ex r w))) k = Some p'
           \<and> status p' = Paid"
proof (cases r)
  case (Create_order orders_create n1 n2 body)
  with assms show ?thesis by (simp add: create_order_keeps_paid)
next
  case (Verify_payment token now body)
  with assms show ?thesis by (simp add: verify_payment_keeps_paid)
next
  case (Download now token)
  with assms show ?thesis by (simp add: download_world)
qed

lemma run_keeps_paid:
  "fresh_order_ids hmac cfg ex rs w \<Longrightarrow> obj_get (payments_file w) k = Some p \<Longrightarrow> status p = Paid
   \<Longrightarrow> \<exists>p'. obj_get (payments_file (run hmac cfg ex rs w)) k = Some p' \<and> status p' = Paid"
proof (induction rs arbitrary: w p)
  case Nil
  then show ?case by simp
next
  case (Cons r rs)
  from Cons.prems have fr: "case fst (handle hmac cfg ex r w) of
           Json_order order \<Rightarrow> obj_get (payments_file w) (order_id order) = None
         | _ \<Rightarrow> True"
    and rest: "fresh_order_ids hmac cfg ex rs (snd (handle hmac cfg ex r w))"
    by simp_all
  from handle_keeps_paid [OF Cons.prems(2) Cons.prems(3) fr]
  obtain p' where "obj_get (payments_file (snd (handle hmac cfg ex r w))) k = Some p'"
    and "status p' = Paid" by blast
  with Cons.IH [OF rest] show ?case by simp
qed

lemma sample_requests_fresh:
  "fresh_order_ids hmac_at_sample (load_config sample_env) sample_downloads sample_requests
     world_paid"
  unfolding sample_requests_def world_paid_eq load_config_sample
  by (simp add: create_order_def verify_payment_def download_def
      sample_create_body_def sample_verify_body_def next_gateway_def hmac_at_sample_def
      sampleProducts_def readProducts_def readPayments_def writePayments_def
      order_request_def or_null_def obj_lookup_def obj_get_def obj_values_def expiry_def
      sample_downloads_def other_token_def sample_token_def)

subsection \<open>The expiry of a minted token\<close>

lemma verify_payment_minted_expiry:
  assumes a: "DOWNLOAD_TOKEN_TTL_MIN cfg = Some ttl
         \<and> verify_payment hmac cfg token now body w = (Json_verified url pid ptitle, w')"
  shows "\<exists>oid local. req_order_id body = Some oid
                \<and> obj_get (payments_file w') oid = Some local
                \<and> status local = Paid
                \<and> downloadToken local = Some token
                \<and> downloadExpiresAt local = Some (JNum (now + ttl * 60 * 1000))"
proof -
  from a have v: "verify_payment hmac cfg token now body w = (Json_verified url pid ptitle, w')"
    and t: "expiry cfg now = JNum (now + ttl * 60 * 1000)"
    by (simp_all add: expiry_def)
  from verify_payment_Json_verified [OF v] obtain oid payid sig local product where
    o: "req_order_id body = Some oid"
    and w': "w' = w\<lparr>payments_file := obj_set (payments_file w) oid
                 (local\<lparr>status := Paid,
                        razorpay_payment_id := Some payid,
                        razorpay_signature := Some sig,
                        downloadToken := Some token,
                        downloadExpiresAt := Some (expiry cfg now)\<rparr>)\<rparr>"
    by blast
  show ?thesis
    by (simp add: o w' obj_get_obj_set t)
qed

lemma minted_token_one_minute:
  assumes t1: "DOWNLOAD_TOKEN_TTL_MIN cfg = Some 1"
    and v: "verify_payment hmac cfg token now body w = (Json_verified url pid ptitle, w')"
    and fresh: "\<forall>p \<in> set (obj_values (payments_file w)). downloadToken p \<noteq> Some token"
  shows "download ex (now + 61 * 1000) token w' =
             (Send_text 410 ''Download link has expired.'', w')"
    and "\<exists>product. find (\<lambda>p. prod_id p = pid) (products_file w) = Some product
           \<and> download ex (now + 30 * 1000) token w' =
               ((if ex (filename product) then Send_file (filename product)
                 else Send_text 404 ''File not found on server''), w')"
proof -
  from t1 have e: "expiry cfg now = JNum (now + 60000)"
    by (simp add: expiry_def)
  from verify_payment_Json_verified [OF v] obtain oid payid sig local product0 where
    f: "find (\<lambda>p. prod_id p = productId local) (products_file w) = Some product0"
    and pid: "pid = prod_id product0"
    and w': "w' = w\<lparr>payments_file := obj_set (payments_file w) oid
                 (local\<lparr>status := Paid,
                        razorpay_payment_id := Some payid,
                        razorpay_signature := Some sig,
                        downloadToken := Some token,
                        downloadExpiresAt := Some (expiry cfg now)\<rparr>)\<rparr>"
    by (elim exE conjE) (rule that, assumption+)
  note d = download_minted [OF fresh, where ex = ex and oid = oid and local = local
      and payid = payid and sig = sig and x = "expiry cfg now"]
  show "download ex (now + 61 * 1000) token w' =
             (Send_text 410 ''Download link has expired.'', w')"
    by (simp only: w' d) (simp add: e)
  from find_prod_id [OF f] pid have i: "productId local = pid" by simp
  with f have g: "find (\<lambda>p. prod_id p = pid) (products_file w) = Some product0"
    by simp
  have "download ex (now + 30 * 1000) token w' =
               ((if ex (filename product0) then Send_file (filename product0)
                 else Send_text 404 ''File not found on server''), w')"
    by (simp only: w' d) (simp add: e f)
  with g show "\<exists>product. find (\<lambda>p. prod_id p = pid) (products_file w) = Some product
           \<and> download ex (now + 30 * 1000) token w' =
               ((if ex (filename product) then Send_file (filename product)
                 else Send_text 404 ''File not found on server''), w')"
    by (intro exI [of _ product0] conjI)
qed

section \<open>Order creation\<close>

text \<open>
  Claim C2, as amended. A successful create-order (the answer is the gateway's order)
  found the requested product in the catalogue and wrote, under the order's id, a record
  in status \<open>Created\<close> for that product. The amount it stores is the product's price in
  rupees, unscaled (\<^verbatim>\<open>amountINR: product.priceINR\<close>); the price times 100 is what it
  asked the gateway to charge.
\<close>

theorem create_order_ledger_entry:
  assumes "fst (create_order orders_create now_receipt now_created body w) = Json_order order"
  shows "\<exists>pid product entry.
           req_productId body = Some pid
         \<and> find (\<lambda>p. prod_id p = pid) (products_file w) = Some product
         \<and> obj_get (payments_file (snd (create_order orders_create now_receipt now_created body w)))
              (order_id order) = Some entry
         \<and> status entry = Created
         \<and> productId entry = prod_id product
         \<and> amountINR entry = priceINR product
         \<and> gateway_calls (snd (create_order orders_create now_receipt now_created body w)) =
              gateway_calls w @ [order_request product now_receipt]
         \<and> amount (order_request product now_receipt) = priceINR product * 100"
proof -
  from create_order_Json_order [OF assms] obtain pid product where
    h: "req_productId body = Some pid" "pid \<noteq> []"
       "find (\<lambda>p. prod_id p = pid) (products_file w) = Some product"
       "orders_create (order_request product now_receipt) = Inr order"
    by blast
  have "create_order orders_create now_receipt now_created body w =
           (Json_order order,
            w\<lparr>gateway_calls := gateway_calls w @ [order_request product now_receipt],
              payments_file := obj_set (payments_file w) (order_id order)
                \<lparr>status = Created, orderId = order_id order, productId = prod_id product,
                 productTitle = title product, amountINR = priceINR product,
                 buyerName = or_null (req_buyerName body),
                 buyerEmail = or_null (req_buyerEmail body),
                 createdAt = now_created, razorpay_payment_id = None,
                 razorpay_signature = None, downloadToken = None,
                 downloadExpiresAt = None\<rparr>\<rparr>)"
    using h by (rule create_order_accepted)
  then show ?thesis
    using h by (simp add: obj_get_obj_set order_request_def)
qed

theorem create_order_ledger_entry_witness:
  "\<exists>pid product entry.
           req_productId sample_create_body = Some pid
         \<and> find (\<lambda>p. prod_id p = pid) (products_file world_seeded) = Some product
         \<and> obj_get (payments_file world_created) ''order_abc'' = Some entry
         \<and> status entry = Created
         \<and> productId entry = prod_id product
         \<and> amountINR entry = priceINR product
         \<and> gateway_calls world_created =
              gateway_calls world_seeded @ [order_request product 1700000000000]
         \<and> amount (order_request product 1700000000000) = priceINR product * 100"
proof -
  have "fst (create_order sample_gateway 1700000000000 1700000000250 sample_create_body
               world_seeded) =
        Json_order \<lparr>order_id = ''order_abc'', order_amount = 19900, order_currency = ''INR'',
                    order_receipt = ''rcpt_prod-ebook-1_1700000000000''\<rparr>"
    by (simp add: sample_order_accepted)
  from create_order_ledger_entry [OF this] show ?thesis
    by (simp add: world_created_def)
qed

text \<open>
  The claim as the specification words it fails on the seeded catalogue: the product is
  priced 199, the record stores 199, not 19900.
\<close>

theorem create_order_amount_counterexample:
  "priceINR (hd (products_file world_seeded)) = 199
   \<and> prod_id (hd (products_file world_seeded)) = ''prod-ebook-1''
   \<and> map_option status (obj_get (payments_file world_created) ''order_abc'') = Some Created
   \<and> map_option amountINR (obj_get (payments_file world_created) ''order_abc'') = Some 199
   \<and> map_option amountINR (obj_get (payments_file world_created) ''order_abc'')
       \<noteq> Some (199 * 100)"
  by (simp add: world_created_eq world_seeded_def ensure_data_files_def sampleProducts_def
      obj_get_def)

text \<open>
  Claim C6. When the gateway rejects the order request, create-order answers 500
  \<^verbatim>\<open>Failed to create order\<close> (\<open>UpstreamError\<close>) and the payments file is what it was: the
  handler has not reached \<^verbatim>\<open>writePayments\<close>.
\<close>

theorem create_order_gateway_failure:
  assumes "req_productId body = Some pid" and "pid \<noteq> []"
    and "find (\<lambda>p. prod_id p = pid) (products_file w) = Some product"
    and "orders_create (order_request product now_receipt) = Inl err"
  shows "fst (create_order orders_create now_receipt now_created body w) =
           Json_error 500 ''Failed to create order''
       \<and> error_of (fst (create_order orders_create now_receipt now_created body w)) =
           Some UpstreamError
       \<and> payments_file (snd (create_order orders_create now_receipt now_created body w)) =
           payments_file w"
proof -
  have "create_order orders_create now_receipt now_created body w =
           (Json_error 500 ''Failed to create order'',
            w\<lparr>gateway_calls := gateway_calls w @ [order_request product now_receipt]\<rparr>)"
    using assms by (rule create_order_rejected)
  then show ?thesis by (simp add: error_of_def)
qed

theorem create_order_gateway_failure_witness:
  "fst (create_order failing_gateway 1700000000000 1700000000250 sample_create_body world_created) =
     Json_error 500 ''Failed to create order''
   \<and> error_of (fst (create_order failing_gateway 1700000000000 1700000000250 sample_create_body
        world_created)) = Some UpstreamError
   \<and> payments_file (snd (create_order failing_gateway 1700000000000 1700000000250
        sample_create_body world_created)) = payments_file world_created"
proof -
  have 1: "req_productId sample_create_body = Some ''prod-ebook-1''"
    by (simp add: sample_create_body_def)
  have 2: "''prod-ebook-1'' \<noteq> []" by simp
  have 3: "find (\<lambda>p. prod_id p = ''prod-ebook-1'') (products_file world_created) =
             Some (hd sampleProducts)"
    by (simp add: world_created_eq sampleProducts_def)
  have 4: "failing_gateway (order_request (hd sampleProducts) 1700000000000) =
             Inl (Gateway_rejected ''BAD_REQUEST_ERROR'')"
    by (simp add: failing_gateway_def)
  from 1 2 3 4 show ?thesis
    by (rule create_order_gateway_failure)
qed

text \<open>
  Claim C9. On the seeded catalogue, create-order for \<^verbatim>\<open>prod-ebook-1\<close> sends the gateway
  exactly one request, and its amount is 19900.
\<close>

theorem create_order_ebook_charge:
  assumes "products_file w = products_file (ensure_data_files None payments_on_disk)"
    and "req_productId body = Some ''prod-ebook-1''"
  shows "gateway_calls (snd (create_order orders_create now_receipt now_created body w)) =
           gateway_calls w @
             [\<lparr>amount = 19900, currency = ''INR'',
               receipt = ''rcpt_prod-ebook-1_'' @ show_int now_receipt,
               payment_capture = 1\<rparr>]"
  using assms
  by (simp add: create_order_def ensure_data_files_def sampleProducts_def readProducts_def
      readPayments_def writePayments_def order_request_def Let_def split: sum.splits)

theorem create_order_ebook_charge_witness:
  "gateway_calls (snd (create_order sample_gateway 1700000000000 1700000000250
      sample_create_body world_seeded)) =
     [\<lparr>amount = 19900, currency = ''INR'', receipt = ''rcpt_prod-ebook-1_1700000000000'',
       payment_capture = 1\<rparr>]"
proof -
  have 1: "products_file world_seeded = products_file (ensure_data_files None None)"
    by (simp add: world_seeded_def)
  have 2: "req_productId sample_create_body = Some ''prod-ebook-1''"
    by (simp add: sample_create_body_def)
  have 3: "gateway_calls world_seeded = []"
    by (simp add: world_seeded_def ensure_data_files_def)
  have 4: "show_int 1700000000000 = ''1700000000000''"
    by (simp add: show_int_def show_nat.simps digitChar_def)
  from create_order_ebook_charge [OF 1 2, of sample_gateway 1700000000000 1700000000250]
  show ?thesis by (simp add: 3 4)
qed

section \<open>Payment verification\<close>

text \<open>
  Claim C1, as amended. With the three fields of the callback present and non-empty,
  verify-payment succeeds exactly when the supplied signature is the HMAC of
  \<^verbatim>\<open>orderId + "|" + paymentId\<close> under the key secret and, besides, the order is a key of
  the ledger and the record's product is in the catalogue. A matching signature for an
  order id that is neither a key of the ledger nor a name inherited from
  \<^verbatim>\<open>Object.prototype\<close> is answered 404 (\<open>NotFound\<close>), the world unchanged. A signature
  that differs is answered 400 \<^verbatim>\<open>Invalid signature\<close> (\<open>SignatureInvalid\<close>) and the world
  is unchanged: no record is touched and no token is stored. A missing or empty field is
  answered 400 \<^verbatim>\<open>Missing parameters\<close> before any signature is computed, the world
  unchanged as well.
\<close>

theorem verify_payment_signature_check:
  "(falsy (req_order_id body) \<or> falsy (req_payment_id body) \<or> falsy (req_signature body)
      \<longrightarrow> verify_payment hmac cfg token now body w = (Json_error 400 ''Missing parameters'', w))
   \<and> (\<forall>oid payid sig.
         req_order_id body = Some oid \<and> req_payment_id body = Some payid
         \<and> req_signature body = Some sig \<and> oid \<noteq> [] \<and> payid \<noteq> [] \<and> sig \<noteq> []
         \<longrightarrow>
           (succeeds (fst (verify_payment hmac cfg token now body w)) \<longleftrightarrow>
              hmac (RAZORPAY_KEY_SECRET cfg) (oid @ ''|'' @ payid) = sig
              \<and> (\<exists>local product. obj_get (payments_file w) oid = Some local
                    \<and> find (\<lambda>p. prod_id p = productId local) (products_file w) = Some product))
         \<and> (hmac (RAZORPAY_KEY_SECRET cfg) (oid @ ''|'' @ payid) = sig
              \<and> obj_get (payments_file w) oid = None \<and> oid \<notin> set object_prototype_names \<longrightarrow>
              verify_payment hmac cfg token now body w =
                (Json_error 404 ''Order not found on server'', w)
              \<and> error_of (fst (verify_payment hmac cfg token now body w)) = Some NotFound)
         \<and> (hmac (RAZORPAY_KEY_SECRET cfg) (oid @ ''|'' @ payid) \<noteq> sig \<longrightarrow>
              verify_payment hmac cfg token now body w = (Json_error 400 ''Invalid signature'', w)
              \<and> error_of (fst (verify_payment hmac cfg token now body w)) = Some SignatureInvalid))"
proof (intro conjI allI impI)
  assume "falsy (req_order_id body) \<or> falsy (req_payment_id body) \<or> falsy (req_signature body)"
  then show "verify_payment hmac cfg token now body w = (Json_error 400 ''Missing parameters'', w)"
    by (rule verify_payment_missing)
next
  fix oid payid sig
  assume p: "req_order_id body = Some oid \<and> req_payment_id body = Some payid
         \<and> req_signature body = Some sig \<and> oid \<noteq> [] \<and> payid \<noteq> [] \<and> sig \<noteq> []"
  show "succeeds (fst (verify_payment hmac cfg token now body w)) \<longleftrightarrow>
              hmac (RAZORPAY_KEY_SECRET cfg) (oid @ ''|'' @ payid) = sig
              \<and> (\<exists>local product. obj_get (payments_file w) oid = Some local
                    \<and> find (\<lambda>p. prod_id p = productId local) (products_file w) = Some product)"
  proof (cases "hmac (RAZORPAY_KEY_SECRET cfg) (oid @ ''|'' @ payid) = sig")
    case False
    with p show ?thesis by (simp add: verify_payment_mismatch)
  next
    case True
    show ?thesis
    proof (cases "obj_get (payments_file w) oid")
      case None
      show ?thesis
      proof (cases "oid \<in> set object_prototype_names")
        case True
        with p \<open>hmac (RAZORPAY_KEY_SECRET cfg) (oid @ ''|'' @ payid) = sig\<close> None
        show ?thesis by (simp add: verify_payment_inherited_name)
      next
        case False
        with p \<open>hmac (RAZORPAY_KEY_SECRET cfg) (oid @ ''|'' @ payid) = sig\<close> None
        show ?thesis by (simp add: verify_payment_unknown_order)
      qed
    next
      case (Some local)
      with p True show ?thesis
        by (simp add: verify_payment_marks_paid split: option.splits)
    qed
  qed
next
  fix oid payid sig
  assume p: "req_order_id body = Some oid \<and> req_payment_id body = Some payid
         \<and> req_signature body = Some sig \<and> oid \<noteq> [] \<and> payid \<noteq> [] \<and> sig \<noteq> []"
    and m: "hmac (RAZORPAY_KEY_SECRET cfg) (oid @ ''|'' @ payid) = sig
              \<and> obj_get (payments_file w) oid = None \<and> oid \<notin> set object_prototype_names"
  then show "verify_payment hmac cfg token now body w =
                (Json_error 404 ''Order not found on server'', w)"
    by (simp add: verify_payment_unknown_order)
  then show "error_of (fst (verify_payment hmac cfg token now body w)) = Some NotFound"
    by (simp add: error_of_def)
next
  fix oid payid sig
  assume p: "req_order_id body = Some oid \<and> req_payment_id body = Some payid
         \<and> req_signature body = Some sig \<and> oid \<noteq> [] \<and> payid \<noteq> [] \<and> sig \<noteq> []"
    and m: "hmac (RAZORPAY_KEY_SECRET cfg) (oid @ ''|'' @ payid) \<noteq> sig"
  then show "verify_payment hmac cfg token now body w = (Json_error 400 ''Invalid signature'', w)"
    by (simp add: verify_payment_mismatch)
  then show "error_of (fst (verify_payment hmac cfg token now body w)) = Some SignatureInvalid"
    by (simp add: error_of_def)
qed

theorem verify_payment_signature_check_witness:
  "verify_payment hmac_at_sample (load_config sample_env) sample_token 1700000100000
     forged_verify_body world_created = (Json_error 400 ''Invalid signature'', world_created)
   \<and> error_of (fst (verify_payment hmac_at_sample (load_config sample_env) sample_token
         1700000100000 forged_verify_body world_created)) = Some SignatureInvalid
   \<and> succeeds (fst (verify_payment hmac_at_sample (load_config sample_env) sample_token
         1700000100000 sample_verify_body world_created))
   \<and> verify_payment hmac_at_sample (load_config sample_env) sample_token 1700000100000
        sample_verify_body world_seeded =
        (Json_error 404 ''Order not found on server'', world_seeded)
   \<and> error_of (fst (verify_payment hmac_at_sample (load_config sample_env) sample_token
         1700000100000 sample_verify_body world_seeded)) = Some NotFound"
proof -
  have f: "req_order_id forged_verify_body = Some ''order_abc''
        \<and> req_payment_id forged_verify_body = Some ''pay_xyz''
        \<and> req_signature forged_verify_body = Some ''00ff''
        \<and> ''order_abc'' \<noteq> [] \<and> ''pay_xyz'' \<noteq> [] \<and> ''00ff'' \<noteq> []"
    by (simp add: forged_verify_body_def)
  have m: "hmac_at_sample (RAZORPAY_KEY_SECRET (load_config sample_env))
             (''order_abc'' @ ''|'' @ ''pay_xyz'') \<noteq> ''00ff''"
    by (simp add: load_config_sample hmac_at_sample_def)
  have s: "req_order_id sample_verify_body = Some ''order_abc''
        \<and> req_payment_id sample_verify_body = Some ''pay_xyz''
        \<and> req_signature sample_verify_body =
            Some ''ee21698235c31aef5bb049b86d1c00014db7de75dbe78cb4ed9ffa8e90855655''
        \<and> ''order_abc'' \<noteq> [] \<and> ''pay_xyz'' \<noteq> []
        \<and> ''ee21698235c31aef5bb049b86d1c00014db7de75dbe78cb4ed9ffa8e90855655'' \<noteq> []"
    by (simp add: sample_verify_body_def)
  have k: "hmac_at_sample (RAZORPAY_KEY_SECRET (load_config sample_env))
             (''order_abc'' @ ''|'' @ ''pay_xyz'') =
           ''ee21698235c31aef5bb049b86d1c00014db7de75dbe78cb4ed9ffa8e90855655''"
    by (simp add: load_config_sample hmac_at_sample_def)
  have l: "\<exists>local product. obj_get (payments_file world_created) ''order_abc'' = Some local
             \<and> find (\<lambda>p. prod_id p = productId local) (products_file world_created) = Some product"
    by (simp add: world_created_eq obj_get_def sampleProducts_def)
  have n: "obj_get (payments_file world_seeded) ''order_abc'' = None
             \<and> ''order_abc'' \<notin> set object_prototype_names"
    by (simp add: world_seeded_def ensure_data_files_def obj_get_def object_prototype_names_def)
  note a = verify_payment_signature_check [where body = forged_verify_body
      and hmac = hmac_at_sample and cfg = "load_config sample_env" and token = sample_token
      and now = 1700000100000 and w = world_created]
  note b = verify_payment_signature_check [where body = sample_verify_body
      and hmac = hmac_at_sample and cfg = "load_config sample_env" and token = sample_token
      and now = 1700000100000 and w = world_created]
  note c = verify_payment_signature_check [where body = sample_verify_body
      and hmac = hmac_at_sample and cfg = "load_config sample_env" and token = sample_token
      and now = 1700000100000 and w = world_seeded]
  from a f m have
    "verify_payment hmac_at_sample (load_config sample_env) sample_token 1700000100000
       forged_verify_body world_created = (Json_error 400 ''Invalid signature'', world_created)
     \<and> error_of (fst (verify_payment hmac_at_sample (load_config sample_env) sample_token
         1700000100000 forged_verify_body world_created)) = Some SignatureInvalid"
    by blast
  moreover from b s k l have
    "succeeds (fst (verify_payment hmac_at_sample (load_config sample_env) sample_token
         1700000100000 sample_verify_body world_created))"
    by blast
  moreover from c s k n have
    "verify_payment hmac_at_sample (load_config sample_env) sample_token 1700000100000
        sample_verify_body world_seeded =
        (Json_error 404 ''Order not found on server'', world_seeded)
     \<and> error_of (fst (verify_payment hmac_at_sample (load_config sample_env) sample_token
         1700000100000 sample_verify_body world_seeded)) = Some NotFound"
    by blast
  ultimately show ?thesis by blast
qed

text \<open>
  The claim as the specification words it fails four ways. A genuine signature on an
  order the server has no record of is answered 404; on a recorded order whose product
  has left the catalogue, and on the order id \<^verbatim>\<open>constructor\<close>, the handler throws: none
  of the three succeeds. And an empty signature, which is no match, is answered
  \<^verbatim>\<open>Missing parameters\<close> (\<open>InvalidRequest\<close>), not \<open>SignatureInvalid\<close>.
\<close>

theorem valid_signature_unknown_order_counterexample:
  "req_order_id sample_verify_body = Some ''order_abc''
   \<and> req_payment_id sample_verify_body = Some ''pay_xyz''
   \<and> req_signature sample_verify_body =
        Some (hmac_at_sample (RAZORPAY_KEY_SECRET (load_config sample_env)) ''order_abc|pay_xyz'')
   \<and> verify_payment hmac_at_sample (load_config sample_env) sample_token 1700000100000
        sample_verify_body world_seeded =
        (Json_error 404 ''Order not found on server'', world_seeded)
   \<and> \<not> succeeds (Json_error 404 ''Order not found on server'')
   \<and> fst (verify_payment hmac_at_sample (load_config sample_env) sample_token 1700000100000
        sample_verify_body world_ebook_withdrawn) = Uncaught_TypeError
   \<and> req_order_id constructor_verify_body = Some ''constructor''
   \<and> req_signature constructor_verify_body =
        Some (hmac_at_sample (RAZORPAY_KEY_SECRET (load_config sample_env)) ''constructor|pay_xyz'')
   \<and> verify_payment hmac_at_sample (load_config sample_env) sample_token 1700000100000
        constructor_verify_body world_created = (Uncaught_TypeError, world_created)
   \<and> \<not> succeeds Uncaught_TypeError
   \<and> req_signature empty_signature_body = Some []
   \<and> hmac_at_sample (RAZORPAY_KEY_SECRET (load_config sample_env)) ''order_abc|pay_xyz'' \<noteq> []
   \<and> verify_payment hmac_at_sample (load_config sample_env) sample_token 1700000100000
        empty_signature_body world_created = (Json_error 400 ''Missing parameters'', world_created)
   \<and> error_of (Json_error 400 ''Missing parameters'') = Some InvalidRequest"
  unfolding load_config_sample world_ebook_withdrawn_def world_created_eq
  by (simp add: hmac_at_sample_def sample_verify_body_def constructor_verify_body_def
      empty_signature_body_def verify_payment_def world_seeded_def ensure_data_files_def
      readPayments_def readProducts_def writePayments_def obj_lookup_def obj_get_def
      object_prototype_names_def sampleProducts_def error_of_def expiry_def)

text \<open>
  Claim C4, as amended. Along every run of requests in which the gateway never hands out
  an order id twice, a record that is paid stays in the ledger under its key and stays
  paid: the status never goes back. But verify-payment does not look at the status: every
  callback with a valid signature for a recorded order writes status, payment id,
  signature, token and expiry anew, on a record already paid as on a created one;
  the records under other keys are left as they are. The download handler changes
  nothing.
\<close>

theorem paid_record_stays_paid:
  "(fresh_order_ids hmac cfg ex rs w \<and> obj_get (payments_file w) k = Some p \<and> status p = Paid
      \<longrightarrow> (\<exists>p'. obj_get (payments_file (run hmac cfg ex rs w)) k = Some p' \<and> status p' = Paid))
   \<and> (\<forall>oid payid sig local.
         req_order_id body = Some oid \<and> req_payment_id body = Some payid
         \<and> req_signature body = Some sig \<and> oid \<noteq> [] \<and> payid \<noteq> [] \<and> sig \<noteq> []
         \<and> hmac (RAZORPAY_KEY_SECRET cfg) (oid @ ''|'' @ payid) = sig
         \<and> obj_get (payments_file w) oid = Some local
         \<longrightarrow> obj_get (payments_file (snd (verify_payment hmac cfg token now body w))) oid =
               Some (local\<lparr>status := Paid,
                          razorpay_payment_id := Some payid,
                          razorpay_signature := Some sig,
                          downloadToken := Some token,
                          downloadExpiresAt := Some (expiry cfg now)\<rparr>))
   \<and> (req_order_id body \<noteq> Some k
         \<longrightarrow> obj_get (payments_file (snd (verify_payment hmac cfg token now body w))) k =
               obj_get (payments_file w) k)
   \<and> snd (download ex now token w) = w"
proof (intro conjI allI impI)
  assume "fresh_order_ids hmac cfg ex rs w \<and> obj_get (payments_file w) k = Some p \<and> status p = Paid"
  then show "\<exists>p'. obj_get (payments_file (run hmac cfg ex rs w)) k = Some p' \<and> status p' = Paid"
    by (simp add: run_keeps_paid)
next
  fix oid payid sig local
  assume "req_order_id body = Some oid \<and> req_payment_id body = Some payid
         \<and> req_signature body = Some sig \<and> oid \<noteq> [] \<and> payid \<noteq> [] \<and> sig \<noteq> []
         \<and> hmac (RAZORPAY_KEY_SECRET cfg) (oid @ ''|'' @ payid) = sig
         \<and> obj_get (payments_file w) oid = Some local"
  then show "obj_get (payments_file (snd (verify_payment hmac cfg token now body w))) oid =
               Some (local\<lparr>status := Paid,
                          razorpay_payment_id := Some payid,
                          razorpay_signature := Some sig,
                          downloadToken := Some token,
                          downloadExpiresAt := Some (expiry cfg now)\<rparr>)"
    by (simp add: verify_payment_marks_paid obj_get_obj_set)
next
  assume "req_order_id body \<noteq> Some k"
  then show "obj_get (payments_file (snd (verify_payment hmac cfg token now body w))) k =
               obj_get (payments_file w) k"
    by (rule verify_payment_other_keys)
next
  show "snd (download ex now token w) = w"
    by (rule download_world)
qed

theorem paid_record_stays_paid_witness:
  "map_option status (obj_get (payments_file world_paid) ''order_abc'') = Some Paid
   \<and> fresh_order_ids hmac_at_sample (load_config sample_env) sample_downloads sample_requests
        world_paid
   \<and> (\<exists>p'. obj_get (payments_file (run hmac_at_sample (load_config sample_env) sample_downloads
               sample_requests world_paid)) ''order_abc'' = Some p' \<and> status p' = Paid)
   \<and> snd (download sample_downloads 1700000100500 sample_token world_paid) = world_paid"
proof -
  have 1: "obj_get (payments_file world_paid) ''order_abc'' = Some (snd (hd (payments_file world_paid)))"
    by (simp add: world_paid_eq obj_get_def)
  have 2: "status (snd (hd (payments_file world_paid))) = Paid"
    by (simp add: world_paid_eq)
  note t = paid_record_stays_paid [where hmac = hmac_at_sample and cfg = "load_config sample_env"
      and ex = sample_downloads and rs = sample_requests and w = world_paid
      and k = "''order_abc''" and p = "snd (hd (payments_file world_paid))"
      and now = 1700000100500 and token = sample_token]
  from t 1 2 sample_requests_fresh show ?thesis by simp
qed

text \<open>
  A paid record is written again, two ways. The same callback, sent a second time,
  replaces the token and the expiry of the record it had already marked paid. And were
  the gateway to hand out the id of a paid order once more, create-order would put a
  created record in its place.
\<close>

theorem paid_record_rewritten_counterexample:
  "map_option status (obj_get (payments_file world_paid) ''order_abc'') = Some Paid
   \<and> map_option downloadToken (obj_get (payments_file world_paid) ''order_abc'') =
       Some (Some sample_token)
   \<and> map_option downloadExpiresAt (obj_get (payments_file world_paid) ''order_abc'') =
       Some (Some (JNum 1700000160000))
   \<and> map_option downloadToken (obj_get (payments_file (snd (verify_payment hmac_at_sample
         (load_config sample_env) other_token 1700000300000 sample_verify_body world_paid)))
         ''order_abc'') = Some (Some other_token)
   \<and> map_option downloadExpiresAt (obj_get (payments_file (snd (verify_payment hmac_at_sample
         (load_config sample_env) other_token 1700000300000 sample_verify_body world_paid)))
         ''order_abc'') = Some (Some (JNum 1700000360000))
   \<and> other_token \<noteq> sample_token
   \<and> fst (create_order sample_gateway 1700000200000 1700000200300 sample_create_body world_paid) =
       Json_order \<lparr>order_id = ''order_abc'', order_amount = 19900, order_currency = ''INR'',
                   order_receipt = ''rcpt_prod-ebook-1_1700000200000''\<rparr>
   \<and> map_option status (obj_get (payments_file (snd (create_order sample_gateway 1700000200000
         1700000200300 sample_create_body world_paid))) ''order_abc'') = Some Created"
  unfolding world_paid_eq load_config_sample
  by (simp add: verify_payment_def create_order_def sample_verify_body_def sample_create_body_def
      sample_gateway_def hmac_at_sample_def order_request_def or_null_def
      sampleProducts_def readProducts_def readPayments_def writePayments_def
      obj_lookup_def obj_get_def expiry_def other_token_def sample_token_def
      show_int_def show_nat.simps digitChar_def)

text \<open>
  Claim C8, as amended. The time to live is 60 minutes when \<^verbatim>\<open>DOWNLOAD_TOKEN_TTL_MIN\<close>
  is unset or empty, and the number \<open>ttl\<close> when the variable holds \<open>ttl\<close> in decimal. When
  it is a number \<open>ttl\<close>, a successful verify-payment at time \<open>now\<close> leaves the order's
  record paid, with the minted token and expiry \<open>now + ttl * 60 * 1000\<close>. With one minute,
  and a token that no record of the ledger carried before, the download at \<open>now\<close> plus 61
  seconds is answered 410 (\<open>Expired\<close>); the download at \<open>now\<close> plus 30 seconds is not: it
  sends the product's file when the file is in the downloads directory and is answered
  404 \<^verbatim>\<open>File not found on server\<close> when it is not.
\<close>

theorem token_expiry:
  "(falsy (env_DOWNLOAD_TOKEN_TTL_MIN env) \<longrightarrow> DOWNLOAD_TOKEN_TTL_MIN (load_config env) = Some 60)
   \<and> (env_DOWNLOAD_TOKEN_TTL_MIN env = Some (show_int n)
         \<longrightarrow> DOWNLOAD_TOKEN_TTL_MIN (load_config env) = Some n)
   \<and> (\<forall>ttl. DOWNLOAD_TOKEN_TTL_MIN cfg = Some ttl
         \<and> verify_payment hmac cfg token now body w = (Json_verified url pid ptitle, w')
         \<longrightarrow> (\<exists>oid local. req_order_id body = Some oid
                \<and> obj_get (payments_file w') oid = Some local
                \<and> status local = Paid
                \<and> downloadToken local = Some token
                \<and> downloadExpiresAt local = Some (JNum (now + ttl * 60 * 1000))))
   \<and> (DOWNLOAD_TOKEN_TTL_MIN cfg = Some 1
       \<and> verify_payment hmac cfg token now body w = (Json_verified url pid ptitle, w')
       \<and> (\<forall>p \<in> set (obj_values (payments_file w)). downloadToken p \<noteq> Some token)
       \<longrightarrow> download ex (now + 61 * 1000) token w' =
             (Send_text 410 ''Download link has expired.'', w')
           \<and> (\<exists>product. find (\<lambda>p. prod_id p = pid) (products_file w) = Some product
                 \<and> download ex (now + 30 * 1000) token w' =
                     ((if ex (filename product) then Send_file (filename product)
                       else Send_text 404 ''File not found on server''), w')))"
proof (intro conjI allI impI)
  assume "falsy (env_DOWNLOAD_TOKEN_TTL_MIN env)"
  then show "DOWNLOAD_TOKEN_TTL_MIN (load_config env) = Some 60"
    by (cases "env_DOWNLOAD_TOKEN_TTL_MIN env")
       (simp_all add: load_config_def or_default_def parseInt10_60 Let_def)
next
  assume "env_DOWNLOAD_TOKEN_TTL_MIN env = Some (show_int n)"
  then show "DOWNLOAD_TOKEN_TTL_MIN (load_config env) = Some n"
    by (simp add: load_config_def or_default_def Let_def show_int_not_Nil parseInt10_show_int)
next
  fix ttl
  assume "DOWNLOAD_TOKEN_TTL_MIN cfg = Some ttl
         \<and> verify_payment hmac cfg token now body w = (Json_verified url pid ptitle, w')"
  then show "\<exists>oid local. req_order_id body = Some oid
                \<and> obj_get (payments_file w') oid = Some local
                \<and> status local = Paid
                \<and> downloadToken local = Some token
                \<and> downloadExpiresAt local = Some (JNum (now + ttl * 60 * 1000))"
    by (rule verify_payment_minted_expiry)
next
  assume a: "DOWNLOAD_TOKEN_TTL_MIN cfg = Some 1
       \<and> verify_payment hmac cfg token now body w = (Json_verified url pid ptitle, w')
       \<and> (\<forall>p \<in> set (obj_values (payments_file w)). downloadToken p \<noteq> Some token)"
  show "download ex (now + 61 * 1000) token w' =
             (Send_text 410 ''Download link has expired.'', w')"
    by (rule minted_token_one_minute(1) [OF a [THEN conjunct1] a [THEN conjunct2, THEN conjunct1]
          a [THEN conjunct2, THEN conjunct2]])
next
  assume a: "DOWNLOAD_TOKEN_TTL_MIN cfg = Some 1
       \<and> verify_payment hmac cfg token now body w = (Json_verified url pid ptitle, w')
       \<and> (\<forall>p \<in> set (obj_values (payments_file w)). downloadToken p \<noteq> Some token)"
  show "\<exists>product. find (\<lambda>p. prod_id p = pid) (products_file w) = Some product
                 \<and> download ex (now + 30 * 1000) token w' =
                     ((if ex (filename product) then Send_file (filename product)
                       else Send_text 404 ''File not found on server''), w')"
    by (rule minted_token_one_minute(2) [OF a [THEN conjunct1] a [THEN conjunct2, THEN conjunct1]
          a [THEN conjunct2, THEN conjunct2]])
qed

theorem token_expiry_witness:
  "DOWNLOAD_TOKEN_TTL_MIN (load_config (sample_env\<lparr>env_DOWNLOAD_TOKEN_TTL_MIN := None\<rparr>)) = Some 60
   \<and> DOWNLOAD_TOKEN_TTL_MIN
        (load_config (sample_env\<lparr>env_DOWNLOAD_TOKEN_TTL_MIN := Some ''15''\<rparr>)) = Some 15
   \<and> DOWNLOAD_TOKEN_TTL_MIN (load_config sample_env) = Some 1
   \<and> map_option downloadExpiresAt (obj_get (payments_file world_paid) ''order_abc'') =
       Some (Some (JNum (1700000100000 + 1 * 60 * 1000)))
   \<and> download sample_downloads (1700000100000 + 61 * 1000) sample_token world_paid =
       (Send_text 410 ''Download link has expired.'', world_paid)
   \<and> download sample_downloads (1700000100000 + 30 * 1000) sample_token world_paid =
       (Send_file ''mastering-productivity.pdf'', world_paid)"
proof -
  note t = token_expiry [where env = "sample_env\<lparr>env_DOWNLOAD_TOKEN_TTL_MIN := None\<rparr>"
      and cfg = "load_config sample_env" and hmac = hmac_at_sample and token = sample_token
      and now = 1700000100000 and body = sample_verify_body and w = world_created
      and w' = world_paid and url = "''http://localhost:3000/download/'' @ sample_token"
      and pid = "''prod-ebook-1''" and ptitle = "''Mastering Productivity (eBook)''"
      and ex = sample_downloads]
  note u = token_expiry [where env = "sample_env\<lparr>env_DOWNLOAD_TOKEN_TTL_MIN := Some ''15''\<rparr>"
      and n = 15]
  have s15: "show_int 15 = ''15''"
    by (simp add: show_int_def show_nat.simps digitChar_def)
  have 1: "falsy (env_DOWNLOAD_TOKEN_TTL_MIN (sample_env\<lparr>env_DOWNLOAD_TOKEN_TTL_MIN := None\<rparr>))"
    by simp
  have 2: "DOWNLOAD_TOKEN_TTL_MIN (load_config sample_env) = Some 1"
    by (simp add: load_config_sample)
  have 3: "verify_payment hmac_at_sample (load_config sample_env) sample_token 1700000100000
             sample_verify_body world_created =
           (Json_verified (''http://localhost:3000/download/'' @ sample_token) ''prod-ebook-1''
              ''Mastering Productivity (eBook)'', world_paid)"
    by (simp add: sample_payment_verified world_paid_eq)
  have 4: "\<forall>p \<in> set (obj_values (payments_file world_created)). downloadToken p \<noteq> Some sample_token"
    by (simp add: world_created_eq obj_values_def)
  have 5: "find (\<lambda>p. prod_id p = ''prod-ebook-1'') (products_file world_created) =
             Some (hd sampleProducts)"
    by (simp add: world_created_eq sampleProducts_def)
  have 6: "filename (hd sampleProducts) = ''mastering-productivity.pdf''"
    and 8: "sample_downloads ''mastering-productivity.pdf''"
    by (simp_all add: sampleProducts_def sample_downloads_def)
  have 7: "map_option downloadExpiresAt (obj_get (payments_file world_paid) ''order_abc'') =
       Some (Some (JNum (1700000100000 + 1 * 60 * 1000)))"
    by (simp add: world_paid_eq obj_get_def)
  have 9: "env_DOWNLOAD_TOKEN_TTL_MIN (sample_env\<lparr>env_DOWNLOAD_TOKEN_TTL_MIN := Some ''15''\<rparr>) =
             Some (show_int 15)"
    by (simp add: s15)
  from t 1 have a: "DOWNLOAD_TOKEN_TTL_MIN
      (load_config (sample_env\<lparr>env_DOWNLOAD_TOKEN_TTL_MIN := None\<rparr>)) = Some 60"
    by blast
  from u 9 have a': "DOWNLOAD_TOKEN_TTL_MIN
      (load_config (sample_env\<lparr>env_DOWNLOAD_TOKEN_TTL_MIN := Some ''15''\<rparr>)) = Some 15"
    by blast
  from t 2 3 4 have b: "download sample_downloads (1700000100000 + 61 * 1000) sample_token world_paid =
       (Send_text 410 ''Download link has expired.'', world_paid)"
    by blast
  from t 2 3 4 obtain product where
    "find (\<lambda>p. prod_id p = ''prod-ebook-1'') (products_file world_created) = Some product"
    and d: "download sample_downloads (1700000100000 + 30 * 1000) sample_token world_paid =
       ((if sample_downloads (filename product) then Send_file (filename product)
         else Send_text 404 ''File not found on server''), world_paid)"
    by blast
  with 5 have "product = hd sampleProducts" by simp
  with d 6 8 have c: "download sample_downloads (1700000100000 + 30 * 1000) sample_token world_paid =
       (Send_file ''mastering-productivity.pdf'', world_paid)"
    by simp
  from a a' 2 7 b c show ?thesis by simp
qed

text \<open>
  The scenario as the specification words it fails two ways, both with one minute to
  live. With the file gone from the downloads directory, the download 30 seconds after
  the token was minted is answered 404. And when a second order is given the token the
  first one carries, the download 30 seconds after finds the first order's record, whose
  minute is long over, and is answered 410.
\<close>

theorem download_after_thirty_seconds_counterexample:
  "DOWNLOAD_TOKEN_TTL_MIN (load_config sample_env) = Some 1
   \<and> verify_payment hmac_at_sample (load_config sample_env) sample_token 1700000100000
        sample_verify_body world_created =
        (Json_verified (''http://localhost:3000/download/'' @ sample_token) ''prod-ebook-1''
           ''Mastering Productivity (eBook)'', world_paid)
   \<and> download empty_downloads (1700000100000 + 30 * 1000) sample_token world_paid =
        (Send_text 404 ''File not found on server'', world_paid)
   \<and> \<not> succeeds (Send_text 404 ''File not found on server'')
   \<and> verify_payment hmac_at_sample (load_config sample_env) sample_token 1700000300000
        second_verify_body world_second_order =
        (Json_verified (''http://localhost:3000/download/'' @ sample_token) ''prod-ebook-1''
           ''Mastering Productivity (eBook)'', world_token_reused)
   \<and> download sample_downloads (1700000300000 + 30 * 1000) sample_token world_token_reused =
        (Send_text 410 ''Download link has expired.'', world_token_reused)"
proof -
  have 1: "DOWNLOAD_TOKEN_TTL_MIN (load_config sample_env) = Some 1"
    by (simp add: load_config_sample)
  have 2: "verify_payment hmac_at_sample (load_config sample_env) sample_token 1700000100000
        sample_verify_body world_created =
        (Json_verified (''http://localhost:3000/download/'' @ sample_token) ''prod-ebook-1''
           ''Mastering Productivity (eBook)'', world_paid)"
    by (simp add: sample_payment_verified world_paid_eq)
  have 3: "download empty_downloads (1700000100000 + 30 * 1000) sample_token world_paid =
        (Send_text 404 ''File not found on server'', world_paid)"
    by (simp add: download_def world_paid_eq readPayments_def readProducts_def obj_values_def
        sampleProducts_def empty_downloads_def)
  have 4: "verify_payment hmac_at_sample (load_config sample_env) sample_token 1700000300000
        second_verify_body world_second_order =
        (Json_verified (''http://localhost:3000/download/'' @ sample_token) ''prod-ebook-1''
           ''Mastering Productivity (eBook)'', world_token_reused)"
    by (simp add: world_token_reused_def second_payment_verified)
  have 5: "download sample_downloads (1700000300000 + 30 * 1000) sample_token world_token_reused =
        (Send_text 410 ''Download link has expired.'', world_token_reused)"
    by (simp add: world_token_reused_def second_payment_verified download_def readPayments_def
        readProducts_def obj_values_def)
  from 1 2 3 4 5 show ?thesis by simp
qed

text \<open>
  Claim C10. A callback with a valid signature for a recorded order whose product is no
  longer in the catalogue: the record is written as paid with the new token, and then
  \<^verbatim>\<open>product.id\<close> on \<^verbatim>\<open>undefined\<close> throws, so the handler sends none of its own
  answers and none of the specification's errors. The download handler guards the same
  lookup: for that token, while it has not expired, it answers 404 \<^verbatim>\<open>Product not found\<close>.
\<close>

theorem verify_payment_product_gone:
  assumes "req_order_id body = Some oid" and "req_payment_id body = Some payid"
    and "req_signature body = Some sig" and "oid \<noteq> []" and "payid \<noteq> []" and "sig \<noteq> []"
    and "hmac (RAZORPAY_KEY_SECRET cfg) (oid @ ''|'' @ payid) = sig"
    and "obj_get (payments_file w) oid = Some local"
    and "find (\<lambda>p. prod_id p = productId local) (products_file w) = None"
  shows "fst (verify_payment hmac cfg token now body w) = Uncaught_TypeError
       \<and> error_of (fst (verify_payment hmac cfg token now body w)) = None
       \<and> obj_get (payments_file (snd (verify_payment hmac cfg token now body w))) oid =
           Some (local\<lparr>status := Paid,
                      razorpay_payment_id := Some payid,
                      razorpay_signature := Some sig,
                      downloadToken := Some token,
                      downloadExpiresAt := Some (expiry cfg now)\<rparr>)
       \<and> ((\<forall>p \<in> set (obj_values (payments_file w)). downloadToken p \<noteq> Some token)
            \<and> \<not> expires_before (Some (expiry cfg now)) now'
            \<longrightarrow> fst (download ex now' token (snd (verify_payment hmac cfg token now body w))) =
                  Send_text 404 ''Product not found'')"
proof -
  let ?l = "local\<lparr>status := Paid, razorpay_payment_id := Some payid,
                   razorpay_signature := Some sig, downloadToken := Some token,
                   downloadExpiresAt := Some (expiry cfg now)\<rparr>"
  have v: "verify_payment hmac cfg token now body w =
             (Uncaught_TypeError, w\<lparr>payments_file := obj_set (payments_file w) oid ?l\<rparr>)"
    using assms by (simp add: verify_payment_marks_paid)
  have d: "(\<forall>p \<in> set (obj_values (payments_file w)). downloadToken p \<noteq> Some token)
            \<and> \<not> expires_before (Some (expiry cfg now)) now'
            \<longrightarrow> fst (download ex now' token (w\<lparr>payments_file := obj_set (payments_file w) oid ?l\<rparr>)) =
                  Send_text 404 ''Product not found''"
  proof
    assume a: "(\<forall>p \<in> set (obj_values (payments_file w)). downloadToken p \<noteq> Some token)
            \<and> \<not> expires_before (Some (expiry cfg now)) now'"
    note m = download_minted [OF a [THEN conjunct1], where ex = ex and oid = oid
        and local = local and payid = payid and sig = sig and x = "expiry cfg now"
        and now' = now']
    show "fst (download ex now' token (w\<lparr>payments_file := obj_set (payments_file w) oid ?l\<rparr>)) =
                  Send_text 404 ''Product not found''"
      by (simp only: m) (simp add: a assms(9))
  qed
  show ?thesis
    by (simp only: v) (simp add: error_of_def obj_get_obj_set d)
qed

theorem verify_payment_product_gone_witness:
  "find (\<lambda>p. prod_id p = ''prod-ebook-1'') (products_file world_ebook_withdrawn) = None
   \<and> fst (verify_payment hmac_at_sample (load_config sample_env) sample_token 1700000100000
          sample_verify_body world_ebook_withdrawn) = Uncaught_TypeError
   \<and> map_option status (obj_get (payments_file (snd (verify_payment hmac_at_sample
          (load_config sample_env) sample_token 1700000100000 sample_verify_body
          world_ebook_withdrawn))) ''order_abc'') = Some Paid
   \<and> map_option downloadToken (obj_get (payments_file (snd (verify_payment hmac_at_sample
          (load_config sample_env) sample_token 1700000100000 sample_verify_body
          world_ebook_withdrawn))) ''order_abc'') = Some (Some sample_token)
   \<and> fst (download sample_downloads 1700000100500 sample_token (snd (verify_payment hmac_at_sample
          (load_config sample_env) sample_token 1700000100000 sample_verify_body
          world_ebook_withdrawn))) = Send_text 404 ''Product not found''"
proof -
  have w: "world_ebook_withdrawn =
     \<lparr>products_file = tl sampleProducts,
      payments_file =
        [(''order_abc'',
          \<lparr>status = Created, orderId = ''order_abc'', productId = ''prod-ebook-1'',
           productTitle = ''Mastering Productivity (eBook)'', amountINR = 199,
           buyerName = Some ''Asha'', buyerEmail = None, createdAt = 1700000000250,
           razorpay_payment_id = None, razorpay_signature = None,
           downloadToken = None, downloadExpiresAt = None\<rparr>)],
      gateway_calls =
        [\<lparr>amount = 19900, currency = ''INR'', receipt = ''rcpt_prod-ebook-1_1700000000000'',
          payment_capture = 1\<rparr>]\<rparr>"
    by (simp add: world_ebook_withdrawn_def world_created_eq)
  have 1: "req_order_id sample_verify_body = Some ''order_abc''"
    and 2: "req_payment_id sample_verify_body = Some ''pay_xyz''"
    and 3: "req_signature sample_verify_body =
              Some ''ee21698235c31aef5bb049b86d1c00014db7de75dbe78cb4ed9ffa8e90855655''"
    by (simp_all add: sample_verify_body_def)
  have 4: "''order_abc'' \<noteq> []" and 5: "''pay_xyz'' \<noteq> []"
    and 6: "''ee21698235c31aef5bb049b86d1c00014db7de75dbe78cb4ed9ffa8e90855655'' \<noteq> []"
    by simp_all
  have 7: "hmac_at_sample (RAZORPAY_KEY_SECRET (load_config sample_env))
             (''order_abc'' @ ''|'' @ ''pay_xyz'') =
           ''ee21698235c31aef5bb049b86d1c00014db7de75dbe78cb4ed9ffa8e90855655''"
    by (simp add: load_config_sample hmac_at_sample_def)
  have 8: "obj_get (payments_file world_ebook_withdrawn) ''order_abc'' =
             Some (snd (hd (payments_file world_ebook_withdrawn)))"
    by (simp add: w obj_get_def)
  have 9: "find (\<lambda>p. prod_id p = productId (snd (hd (payments_file world_ebook_withdrawn))))
             (products_file world_ebook_withdrawn) = None"
    by (simp add: w sampleProducts_def)
  have 10: "find (\<lambda>p. prod_id p = ''prod-ebook-1'') (products_file world_ebook_withdrawn) = None"
    by (simp add: w sampleProducts_def)
  have 11: "\<forall>p \<in> set (obj_values (payments_file world_ebook_withdrawn)).
              downloadToken p \<noteq> Some sample_token"
    by (simp add: w obj_values_def)
  have 12: "\<not> expires_before (Some (expiry (load_config sample_env) 1700000100000)) 1700000100500"
    by (simp add: load_config_sample expiry_def)
  note t = verify_payment_product_gone [where hmac = hmac_at_sample
      and cfg = "load_config sample_env" and token = sample_token and now = 1700000100000
      and now' = 1700000100500 and ex = sample_downloads, OF 1 2 3 4 5 6 7 8 9]
  from t 10 11 12 show ?thesis by simp
qed

section \<open>The download gate\<close>

text \<open>
  Claim C5. A token that no record of the ledger carries as its \<^verbatim>\<open>downloadToken\<close> is
  answered 404 (\<open>NotFound\<close>), whatever the clock and the records' expiry times; the
  answer is never \<open>Expired\<close>.
\<close>

theorem download_unknown_token:
  assumes "\<forall>p \<in> set (obj_values (payments_file w)). downloadToken p \<noteq> Some token"
  shows "download ex now token w = (Send_text 404 ''Invalid or expired download link.'', w)
       \<and> error_of (fst (download ex now token w)) = Some NotFound
       \<and> error_of (fst (download ex now token w)) \<noteq> Some Expired"
proof -
  have "find (\<lambda>p. downloadToken p = Some token) (obj_values (payments_file w)) = None"
    using assms by (auto simp: find_None_iff)
  then show ?thesis
    by (simp add: download_def readPayments_def error_of_def)
qed

theorem download_unknown_token_witness:
  "map downloadToken (obj_values (payments_file world_paid)) = [Some sample_token]
   \<and> other_token \<noteq> sample_token
   \<and> download sample_downloads 1700000999000 other_token world_paid =
        (Send_text 404 ''Invalid or expired download link.'', world_paid)
   \<and> error_of (fst (download sample_downloads 1700000999000 other_token world_paid)) =
        Some NotFound
   \<and> error_of (fst (download sample_downloads 1700000999000 other_token world_paid)) \<noteq>
        Some Expired"
proof -
  have m: "map downloadToken (obj_values (payments_file world_paid)) = [Some sample_token]"
    by (simp add: world_paid_eq obj_values_def)
  have d: "other_token \<noteq> sample_token"
    by (simp add: sample_token_def other_token_def)
  have h: "\<forall>p \<in> set (obj_values (payments_file world_paid)). downloadToken p \<noteq> Some other_token"
    using d by (simp add: world_paid_eq obj_values_def)
  from m d download_unknown_token [OF h] show ?thesis by blast
qed

text \<open>
  Claim C7. The download handler reads the two files and writes neither: on every path
  (unknown token, expired, product or file missing, file sent) the world after the call
  is the world before it, so the token stays valid after a download.
\<close>

theorem download_leaves_world:
  "snd (download ex now token w) = w"
  by (simp add: download_def Let_def split: option.splits)

theorem download_leaves_world_witness:
  "snd (download sample_downloads 1700000100500 sample_token world_paid) = world_paid
   \<and> fst (download sample_downloads 1700000100500 sample_token world_paid) =
       Send_file ''mastering-productivity.pdf''
   \<and> snd (download sample_downloads 1700000999000 sample_token world_paid) = world_paid
   \<and> fst (download sample_downloads 1700000999000 sample_token world_paid) =
       Send_text 410 ''Download link has expired.''"
proof -
  have "fst (download sample_downloads 1700000100500 sample_token world_paid) =
          Send_file ''mastering-productivity.pdf''"
    by (simp add: download_def world_paid_eq readPayments_def readProducts_def obj_values_def
        sampleProducts_def sample_downloads_def)
  moreover have "fst (download sample_downloads 1700000999000 sample_token world_paid) =
          Send_text 410 ''Download link has expired.''"
    by (simp add: download_def world_paid_eq readPayments_def readProducts_def obj_values_def)
  ultimately show ?thesis
    using download_leaves_world [of sample_downloads 1700000100500 sample_token world_paid]
      download_leaves_world [of sample_downloads 1700000999000 sample_token world_paid]
    by simp
qed

text \<open>
  Claim C3, as amended. For a token found in the ledger, with a numeric expiry \<open>e\<close>: the
  download is answered 410 (\<open>Expired\<close>) exactly when \<open>e < now\<close>, so the token is still
  good at \<open>now = e\<close>; and the download succeeds exactly when \<open>now \<le> e\<close>, the record's
  product is in the catalogue and its file is in the downloads directory.
\<close>

theorem download_expiry:
  assumes "find (\<lambda>p. downloadToken p = Some token) (obj_values (payments_file w)) = Some entry"
    and "downloadExpiresAt entry = Some (JNum e)"
  shows "(error_of (fst (download ex now token w)) = Some Expired \<longleftrightarrow> e < now)
       \<and> (e < now \<longrightarrow> download ex now token w = (Send_text 410 ''Download link has expired.'', w))
       \<and> (succeeds (fst (download ex now token w)) \<longleftrightarrow>
            now \<le> e
            \<and> (\<exists>product. find (\<lambda>p. prod_id p = productId entry) (products_file w) = Some product
                  \<and> ex (filename product)))"
  using assms
  by (auto simp: download_def readPayments_def readProducts_def error_of_def
      split: option.splits)

theorem download_expiry_witness:
  "download sample_downloads 1700000159999 sample_token world_paid =
     (Send_file ''mastering-productivity.pdf'', world_paid)
   \<and> download sample_downloads 1700000160001 sample_token world_paid =
     (Send_text 410 ''Download link has expired.'', world_paid)"
proof -
  have 1: "find (\<lambda>p. downloadToken p = Some sample_token) (obj_values (payments_file world_paid)) =
             Some (snd (hd (payments_file world_paid)))"
    by (simp add: world_paid_eq obj_values_def)
  have 2: "downloadExpiresAt (snd (hd (payments_file world_paid))) = Some (JNum 1700000160000)"
    by (simp add: world_paid_eq)
  have 3: "download sample_downloads 1700000159999 sample_token world_paid =
     (Send_file ''mastering-productivity.pdf'', world_paid)"
    by (simp add: download_def world_paid_eq readPayments_def readProducts_def obj_values_def
        sampleProducts_def sample_downloads_def)
  from download_expiry [OF 1 2, of sample_downloads 1700000160001] 3
  show ?thesis by simp
qed

text \<open>
  At the very millisecond of the expiry the download is still served, where the claim
  as worded wants \<open>Expired\<close>.
\<close>

theorem download_at_expiry_counterexample:
  "map downloadToken (obj_values (payments_file world_paid)) = [Some sample_token]
   \<and> map downloadExpiresAt (obj_values (payments_file world_paid)) = [Some (JNum 1700000160000)]
   \<and> download sample_downloads 1700000160000 sample_token world_paid =
        (Send_file ''mastering-productivity.pdf'', world_paid)
   \<and> error_of (Send_file ''mastering-productivity.pdf'') \<noteq> Some Expired"
  by (simp add: download_def world_paid_eq readPayments_def readProducts_def obj_values_def
        sampleProducts_def sample_downloads_def error_of_def)

end
